theory Spec2Isabelle
  imports Main "HOL-Library.AList"
begin

section \<open>The variant picker of \<^verbatim>\<open>src/assets/variant-picker.js\<close>\<close>

text \<open>
  The custom element \<^verbatim>\<open>VariantPicker\<close> is embedded as functions on an explicit state.
  The state holds the private fields of the instance, the part of its subtree that the
  selectors of the source read, and the pieces of the browser the methods talk to: the
  address bar, the pending network operations, the scheduled callbacks and a log of the
  effects on the page. A method that can throw returns the state it leaves behind together
  with the error, since the assignments made before a \<^verbatim>\<open>throw\<close> stay.
\<close>

subsection \<open>JavaScript values\<close>

text \<open>
  A value that is a string or \<^verbatim>\<open>undefined\<close> is a \<^typ>\<open>string option\<close>. It is truthy when
  it is a non-empty string; \<^verbatim>\<open>a || b\<close> is \<open>or_js\<close>; a template literal prints
  \<^verbatim>\<open>undefined\<close> as the word.
\<close>

definition truthy :: "string option \<Rightarrow> bool" where
  "truthy v = (case v of None \<Rightarrow> False | Some t \<Rightarrow> t \<noteq> [])"

definition or_js :: "string option \<Rightarrow> string option \<Rightarrow> string option" where
  "or_js a b = (if truthy a then a else b)"

definition show_js :: "string option \<Rightarrow> string" where
  "show_js v = (case v of None \<Rightarrow> ''undefined'' | Some t \<Rightarrow> t)"

text \<open>\<^verbatim>\<open>Array.prototype.join\<close> on an array of strings.\<close>

fun join :: "string \<Rightarrow> string list \<Rightarrow> string" where
  "join sep [] = []"
| "join sep [x] = x"
| "join sep (x # y # ys) = x @ sep @ join sep (y # ys)"

text \<open>\<^verbatim>\<open>url.split('?')[0]\<close>: the text before the first question mark.\<close>

definition before_query :: "string \<Rightarrow> string" where
  "before_query u = takeWhile (\<lambda>c. c \<noteq> CHR ''?'') u"

text \<open>\<^verbatim>\<open>String.prototype.includes\<close>.\<close>

fun includes_js :: "string \<Rightarrow> string \<Rightarrow> bool" where
  "includes_js [] pat = (pat = [])"
| "includes_js (c # cs) pat = (take (length pat) (c # cs) = pat \<or> includes_js cs pat)"

text \<open>\<^verbatim>\<open>toLowerCase\<close> on the ASCII letters; the other bytes are kept.\<close>

definition lower_char :: "char \<Rightarrow> char" where
  "lower_char c =
     (case map_of (zip ''ABCDEFGHIJKLMNOPQRSTUVWXYZ'' ''abcdefghijklmnopqrstuvwxyz'') c of
        None \<Rightarrow> c
      | Some l \<Rightarrow> l)"

definition toLowerCase :: "string \<Rightarrow> string" where
  "toLowerCase t = map lower_char t"

text \<open>\<^verbatim>\<open>text.trim().length === 0\<close>: only ASCII white space.\<close>

definition blank :: "string \<Rightarrow> bool" where
  "blank t = (\<forall>c \<in> set t. c \<in> set [CHR 0x09, CHR 0x0A, CHR 0x0B, CHR 0x0C, CHR 0x0D, CHR 0x20])"

subsection \<open>The subtree of the picker\<close>

text \<open>
  The selectors of the source look at inputs, at the \<^verbatim>\<open>option\<close> children of selects and at
  the selects themselves. One record stands for such an element and carries what the source
  reads from it. \<open>el_fieldset\<close> is the result of \<^verbatim>\<open>closest('fieldset')\<close> (an element has at
  most one enclosing fieldset here), \<open>fs_variant_option\<close> says that this fieldset has the
  class \<^verbatim>\<open>variant-option\<close>, \<open>fs_legend\<close> is the text of its \<^verbatim>\<open>.variant-option__name\<close> child.
  \<open>el_checked\<close> is the checkedness of an input and the \<^verbatim>\<open>selected\<close> attribute of an option.
  \<open>el_select\<close> names the select an option belongs to (and the select itself).
\<close>

datatype tag = Radio | Checkbox | OptionTag | SelectTag

record element =
  el_tag :: tag
  el_name :: string
  el_value :: string
  el_checked :: bool
  optionValueId :: "string option"
  variantId :: "string option"
  connectedProductUrl :: "string option"
  el_fieldset :: "nat option"
  fs_variant_option :: bool
  fs_legend :: "string option"
  el_select :: "nat option"
  label_hidden :: bool
  in_product_card :: bool
  in_quick_add_dialog :: bool

definition is_input :: "element \<Rightarrow> bool" where
  "is_input e = (el_tag e = Radio \<or> el_tag e = Checkbox)"

subsection \<open>Documents, requests, callbacks, effects\<close>

text \<open>
  A parsed document is what the queries of the source find in it: the text of
  \<^verbatim>\<open>variant-picker script[type="application/json"]\<close> and whether \<^verbatim>\<open>JSON.parse\<close> accepts
  it, the element found for a tag name (with its product attributes and its controls), and
  the \<^verbatim>\<open>outerHTML\<close> of the \<^verbatim>\<open>main\<close> element.
\<close>

record picker_source =
  src_productId :: "string option"
  src_productUrl :: "string option"
  src_elements :: "element list"

record document =
  doc_payload :: "string option"
  doc_payload_is_json :: bool
  doc_picker :: "string \<Rightarrow> picker_source option"
  doc_main :: "string option"

datatype error =
  NoOptionValueId | TargetNotFound | OptionNotFound | NoPickerSource | NoMainSource
| JsonSyntaxError

text \<open>
  A network operation is started by the picker and settled by the browser. A user-triggered
  one remembers the two flags its callback closes over; it is bound to the abort controller
  created with it, so both share one number: the position in \<open>requests\<close>.
\<close>

datatype request_kind = UserFetch bool bool | PrefetchFetch

datatype request_status = Pending | Aborted | Settled

record request =
  req_url :: string
  req_kind :: request_kind
  req_status :: request_status

datatype response = Response bool string | NetworkError

datatype action = CacheCurrentPage | PrefetchAvailableColorVariants

datatype task = IdleCallback nat "action list" | Timeout nat "action list"

record location =
  pathname :: string
  variant_param :: "string option"

datatype effect =
  VariantSelected string
| VariantUpdate string string string "(string \<times> string) option"
| MorphPicker
| MorphMain string
| ReplaceState location

record world =
  pendingRequestUrl :: "string option"
  abortController :: "nat option"
  htmlCache :: "(string \<times> string) list"
  listenersAttached :: bool
  boundHoverHandler :: bool
  boundLeaveHandler :: bool
  change_listeners :: nat
  tagName :: string
  dataset_productUrl :: "string option"
  dataset_productId :: "string option"
  elements :: "element list"
  in_card_context :: bool
  template_name :: string
  has_requestIdleCallback :: bool
  page_main :: "string option"
  window_location :: location
  parseFromString :: "string \<Rightarrow> document"
  requests :: "request list"
  tasks :: "task list"
  effects :: "effect list"

subsection \<open>The current selection\<close>

text \<open>The selector \<^verbatim>\<open>select option[selected], fieldset input:checked\<close>, in document order.\<close>

definition is_selected :: "element \<Rightarrow> bool" where
  "is_selected e =
     ((el_tag e = OptionTag \<and> el_select e \<noteq> None \<and> el_checked e)
      \<or> (is_input e \<and> el_fieldset e \<noteq> None \<and> el_checked e))"

definition selectedOptions :: "world \<Rightarrow> element list" where
  "selectedOptions s = filter is_selected (elements s)"

fun option_value_ids :: "element list \<Rightarrow> error + string list" where
  "option_value_ids [] = Inr []"
| "option_value_ids (e # es) =
     (if \<not> truthy (optionValueId e) then Inl NoOptionValueId
      else case option_value_ids es of
             Inl err \<Rightarrow> Inl err
           | Inr ids \<Rightarrow> Inr (the (optionValueId e) # ids))"

definition selectedOptionsValues :: "world \<Rightarrow> error + string list" where
  "selectedOptionsValues s = option_value_ids (selectedOptions s)"

definition selectedOptionId :: "world \<Rightarrow> error + string option" where
  "selectedOptionId s =
     (case selectedOptions s of
        [] \<Rightarrow> Inr None
      | e # _ \<Rightarrow> if \<not> truthy (optionValueId e) then Inl NoOptionValueId
                 else Inr (optionValueId e))"

subsection \<open>The request URL\<close>

definition card_url :: "string option \<Rightarrow> string list \<Rightarrow> string" where
  "card_url productUrl params =
     show_js (map_option before_query productUrl)
       @ ''?section_id=section-rendering-product-card&'' @ join ''&'' params"

definition page_url :: "string option \<Rightarrow> string list \<Rightarrow> string" where
  "page_url productUrl params = show_js productUrl @ ''?'' @ join ''&'' params"

definition buildRequestUrl ::
  "world \<Rightarrow> element \<Rightarrow> string option \<Rightarrow> string list \<Rightarrow> world \<times> (error + string)" where
  "buildRequestUrl s selectedOption source sourceSelectedOptionsValues =
     (let productUrl = or_js (or_js (connectedProductUrl selectedOption) (pendingRequestUrl s))
                             (dataset_productUrl s);
          s1 = s\<lparr>pendingRequestUrl := productUrl\<rparr>
      in case selectedOptionsValues s1 of
           Inl err \<Rightarrow> (s1, Inl err)
         | Inr vals \<Rightarrow>
             (let params =
                    (if vals \<noteq> [] \<and> \<not> truthy source
                     then [''option_values='' @ join '','' vals]
                     else if source = Some ''product-card''
                     then (if vals \<noteq> []
                           then [''option_values='' @ join '','' sourceSelectedOptionsValues]
                           else [''option_values='' @ show_js (optionValueId selectedOption)])
                     else [])
              in if in_card_context s1 then (s1, Inr (card_url productUrl params))
                 else (s1, Inr (page_url productUrl params))))"

subsection \<open>The fragment cache\<close>

text \<open>
  \<^verbatim>\<open>#htmlCache\<close> is a JavaScript \<^verbatim>\<open>Map\<close>: its keys are distinct and are iterated in the
  order of their insertion, and \<^verbatim>\<open>set\<close> on a key that is present replaces the value where
  it stands. It is the association list \<open>htmlCache\<close>, oldest key first. Both places that
  write it run the same five lines (97 to 103 and 222 to 228), which are \<open>cache_put\<close>.
\<close>

definition MAX_CACHE_SIZE :: nat where
  "MAX_CACHE_SIZE = 50"

definition evict_oldest :: "(string \<times> string) list \<Rightarrow> (string \<times> string) list" where
  "evict_oldest c = (case c of [] \<Rightarrow> [] | (firstKey, _) # _ \<Rightarrow> AList.delete firstKey c)"

definition cache_put :: "string \<Rightarrow> string \<Rightarrow> (string \<times> string) list \<Rightarrow> (string \<times> string) list" where
  "cache_put url html c =
     AList.update url html (if length c \<ge> MAX_CACHE_SIZE then evict_oldest c else c)"

text \<open>
  The ids that \<^verbatim>\<open>#cacheCurrentPage\<close> collects from \<^verbatim>\<open>input:checked[data-option-value-id]\<close>,
  and the URL it builds from them by hand.
\<close>

definition checkedOptionValueIds :: "world \<Rightarrow> string list" where
  "checkedOptionValueIds s =
     map (\<lambda>e. the (optionValueId e))
       (filter (\<lambda>e. is_input e \<and> el_checked e \<and> optionValueId e \<noteq> None) (elements s))"

definition currentPageUrl :: "world \<Rightarrow> string" where
  "currentPageUrl s =
     show_js (dataset_productUrl s) @ ''?option_values='' @ join '','' (checkedOptionValueIds s)"

definition cacheCurrentPage :: "world \<Rightarrow> world" where
  "cacheCurrentPage s =
     (if checkedOptionValueIds s = [] then s
      else case page_main s of
             None \<Rightarrow> s
           | Some currentHtml \<Rightarrow>
               s\<lparr>htmlCache := cache_put (currentPageUrl s) currentHtml (htmlCache s)\<rparr>)"

subsection \<open>Colour options and the hover URL\<close>

definition isColorOption :: "element \<Rightarrow> bool" where
  "isColorOption e =
     (if el_fieldset e = None \<or> \<not> fs_variant_option e then False
      else case fs_legend e of
             None \<Rightarrow> False
           | Some t \<Rightarrow>
               (let optionName = toLowerCase t
                in includes_js optionName ''color'' \<or> includes_js optionName ''colour''
                   \<or> includes_js optionName ''renk''))"

definition buildHoverUrl :: "world \<Rightarrow> element \<Rightarrow> world \<times> (error + string)" where
  "buildHoverUrl s option =
     (case el_fieldset option of
        None \<Rightarrow> buildRequestUrl s option None []
      | Some fs \<Rightarrow>
          (let selected = selectedOptions s;
               optionValueIds =
                 List.map_filter
                   (\<lambda>opt. if el_fieldset opt = Some fs then optionValueId option
                          else optionValueId opt) selected;
               hasFieldsetOption = (\<exists>opt \<in> set selected. el_fieldset opt = Some fs);
               optionValueIds' =
                 (if \<not> hasFieldsetOption \<and> truthy (optionValueId option)
                  then optionValueIds @ [the (optionValueId option)] else optionValueIds);
               productUrl = or_js (connectedProductUrl option) (dataset_productUrl s);
               params = (if optionValueIds' \<noteq> []
                         then [''option_values='' @ join '','' optionValueIds'] else [])
           in if in_card_context s then (s, Inr (card_url productUrl params))
              else (s, Inr (page_url productUrl params))))"

subsection \<open>Prefetching\<close>

text \<open>
  \<^verbatim>\<open>#prefetchSingleVariant\<close> is an \<^verbatim>\<open>async\<close> method. Up to its first \<^verbatim>\<open>await\<close> it runs at
  once: that part is \<open>prefetchSingleVariant\<close>, which ends by starting the network
  operation. What follows the \<^verbatim>\<open>await\<close> is \<open>prefetchSingleVariant_resume\<close>, run when the
  browser settles the operation, with the URL computed at the start. The whole body is in a
  \<^verbatim>\<open>try\<close> whose \<^verbatim>\<open>catch\<close> is empty.
\<close>

definition prefetchSingleVariant :: "world \<Rightarrow> element \<Rightarrow> world" where
  "prefetchSingleVariant s option =
     (case buildHoverUrl s option of
        (s1, Inl err) \<Rightarrow> s1
      | (s1, Inr url) \<Rightarrow>
          if url = [] \<or> url \<in> fst ` set (htmlCache s1) then s1
          else s1\<lparr>requests := requests s1
                    @ [\<lparr>req_url = url, req_kind = PrefetchFetch, req_status = Pending\<rparr>]\<rparr>)"

definition prefetchSingleVariant_resume :: "world \<Rightarrow> string \<Rightarrow> response \<Rightarrow> world" where
  "prefetchSingleVariant_resume s url resp =
     (case resp of
        NetworkError \<Rightarrow> s
      | Response ok text \<Rightarrow>
          if \<not> ok then s
          else if text = [] \<or> blank text then s
          else case doc_main (parseFromString s text) of
                 None \<Rightarrow> s
               | Some minimalHtml \<Rightarrow>
                   s\<lparr>htmlCache := cache_put url minimalHtml (htmlCache s)\<rparr>)"

text \<open>
  The \<^verbatim>\<open>forEach\<close> of \<^verbatim>\<open>#prefetchAvailableColorVariants\<close>, over the radio inputs that carry
  an option value id. \<open>currentlySelected\<close> is the name of the checked colour met so far.
\<close>

fun prefetch_each :: "world \<Rightarrow> string option \<Rightarrow> element list \<Rightarrow> world \<times> error option" where
  "prefetch_each s currentlySelected [] = (s, None)"
| "prefetch_each s currentlySelected (option # rest) =
     (let isColor = isColorOption option;
          currentlySelected' =
            (if el_checked option \<and> isColor then Some (el_value option)
             else currentlySelected)
      in if el_checked option then prefetch_each s currentlySelected' rest
         else if \<not> isColor then prefetch_each s currentlySelected' rest
         else if label_hidden option then prefetch_each s currentlySelected' rest
         else if currentlySelected' = Some (el_value option)
         then prefetch_each s currentlySelected' rest
         else case buildHoverUrl s option of
                (s1, Inl err) \<Rightarrow> (s1, Some err)
              | (s1, Inr url) \<Rightarrow>
                  if url \<noteq> [] \<and> url \<notin> fst ` set (htmlCache s1)
                  then prefetch_each (prefetchSingleVariant s1 option) currentlySelected' rest
                  else prefetch_each s1 currentlySelected' rest)"

definition prefetchAvailableColorVariants :: "world \<Rightarrow> world \<times> error option" where
  "prefetchAvailableColorVariants s =
     prefetch_each s None
       (filter (\<lambda>e. el_tag e = Radio \<and> optionValueId e \<noteq> None) (elements s))"

definition prefetchAfterSizeChange :: "world \<Rightarrow> world" where
  "prefetchAfterSizeChange s =
     (if has_requestIdleCallback s
      then s\<lparr>tasks := tasks s
                @ [IdleCallback 50 [CacheCurrentPage, PrefetchAvailableColorVariants]]\<rparr>
      else s\<lparr>tasks := tasks s
                @ [Timeout 50 [CacheCurrentPage, PrefetchAvailableColorVariants]]\<rparr>)"

subsection \<open>Applying a document\<close>

text \<open>
  Modelled from the spec: \<^verbatim>\<open>morph\<close> is imported from \<^verbatim>\<open>@theme/morph\<close>, which is not among
  the sources. The spec calls it the fragment renderer: given the old and the new markup of
  a region it reconciles the region in place. For the picker the controls become those of
  the new markup; for \<^verbatim>\<open>main\<close> the markup of the page's main element becomes the new one.
  Both are recorded in \<open>effects\<close>. The model does not decide whether the picker lies inside
  \<^verbatim>\<open>main\<close>: a morph of one leaves the other as it is. Since the picker is reconciled in
  place, a control keeps its identity: the node at a position of the old markup is, after the
  morph, the node at that position with what the new markup gives it.
\<close>

definition morph_picker :: "world \<Rightarrow> picker_source \<Rightarrow> world" where
  "morph_picker s src = s\<lparr>elements := src_elements src, effects := effects s @ [MorphPicker]\<rparr>"

definition morph_main :: "world \<Rightarrow> string \<Rightarrow> world" where
  "morph_main s newMain = s\<lparr>page_main := Some newMain, effects := effects s @ [MorphMain newMain]\<rparr>"

definition updateVariantPicker :: "world \<Rightarrow> document \<Rightarrow> world \<times> (error + (string \<times> string) option)" where
  "updateVariantPicker s newHtml =
     (case doc_picker newHtml (toLowerCase (tagName s)) of
        None \<Rightarrow> (s, Inl NoPickerSource)
      | Some newVariantPickerSource \<Rightarrow>
          (let newProductId = src_productId newVariantPickerSource;
               newProductUrl = src_productUrl newVariantPickerSource;
               newProduct =
                 (if truthy newProductId \<and> truthy newProductUrl
                     \<and> dataset_productId s \<noteq> newProductId
                  then Some (the newProductId, the newProductUrl) else None);
               s1 = s\<lparr>dataset_productId := Some (show_js newProductId),
                       dataset_productUrl := Some (show_js newProductUrl)\<rparr>
           in (morph_picker s1 newVariantPickerSource, Inr newProduct)))"

definition updateMain :: "world \<Rightarrow> document \<Rightarrow> world \<times> error option" where
  "updateMain s newHtml =
     (case (page_main s, doc_main newHtml) of
        (Some main, Some newMain) \<Rightarrow> (morph_main s newMain, None)
      | _ \<Rightarrow> (s, Some NoMainSource))"

text \<open>
  Lines 539 to 559 and lines 649 to 669 are the same statements, run once the payload has
  been found: \<open>apply_html\<close>. The event is built after \<^verbatim>\<open>this.selectedOptionId\<close> has been
  read for the test, so an option without id throws before \<^verbatim>\<open>JSON.parse\<close> does.
\<close>

definition apply_html :: "world \<Rightarrow> document \<Rightarrow> bool \<Rightarrow> bool \<Rightarrow> world \<times> error option" where
  "apply_html s html shouldMorphMain isColorChange =
     (let (s1, thrown) =
            (if shouldMorphMain then updateMain s html
             else case updateVariantPicker s html of
                    (s', Inl err) \<Rightarrow> (s', Some err)
                  | (s', Inr newProduct) \<Rightarrow>
                      (case selectedOptionId s' of
                         Inl err \<Rightarrow> (s', Some err)
                       | Inr None \<Rightarrow> (s', None)
                       | Inr (Some sid) \<Rightarrow>
                           if \<not> doc_payload_is_json html then (s', Some JsonSyntaxError)
                           else (s'\<lparr>effects := effects s'
                                      @ [VariantUpdate (the (doc_payload html)) sid
                                           (case dataset_productId s' of
                                              None \<Rightarrow> [] | Some p \<Rightarrow> p)
                                           newProduct]\<rparr>, None)))
      in case thrown of
           Some err \<Rightarrow> (s1, Some err)
         | None \<Rightarrow> (if \<not> isColorChange then prefetchAfterSizeChange s1 else s1, None))"

definition updateWithCachedHtml :: "world \<Rightarrow> document \<Rightarrow> bool \<Rightarrow> bool \<Rightarrow> world \<times> error option" where
  "updateWithCachedHtml s cachedHtml shouldMorphMain isColorChange =
     (if \<not> truthy (doc_payload cachedHtml) then (s, None)
      else apply_html s cachedHtml shouldMorphMain isColorChange)"

subsection \<open>Fetching the updated section\<close>

definition abort :: "nat option \<Rightarrow> request list \<Rightarrow> request list" where
  "abort controller rs =
     (case controller of
        None \<Rightarrow> rs
      | Some c \<Rightarrow> if c < length rs \<and> req_status (rs ! c) = Pending
                  then rs[c := (rs ! c)\<lparr>req_status := Aborted\<rparr>] else rs)"

definition fetchUpdatedSection :: "world \<Rightarrow> string \<Rightarrow> bool \<Rightarrow> bool \<Rightarrow> world" where
  "fetchUpdatedSection s requestUrl shouldMorphMain isColorChange =
     (let rs = abort (abortController s) (requests s)
      in s\<lparr>abortController := Some (length rs),
            requests := rs @ [\<lparr>req_url = requestUrl,
                               req_kind = UserFetch shouldMorphMain isColorChange,
                               req_status = Pending\<rparr>]\<rparr>)"

text \<open>The second \<^verbatim>\<open>then\<close> callback of the promise chain.\<close>

definition fetchUpdatedSection_then :: "world \<Rightarrow> string \<Rightarrow> bool \<Rightarrow> bool \<Rightarrow> world \<times> error option" where
  "fetchUpdatedSection_then s responseText shouldMorphMain isColorChange =
     (let s1 = s\<lparr>pendingRequestUrl := None\<rparr>;
          html = parseFromString s1 responseText
      in if \<not> truthy (doc_payload html) then (s1, None)
         else apply_html s1 html shouldMorphMain isColorChange)"

text \<open>
  The \<^verbatim>\<open>catch\<close> callback of the chain takes whatever the callbacks before it threw and
  does nothing with it: the chain ends fulfilled, with the state the throw left behind.
\<close>

definition fetchUpdatedSection_catch :: "world \<times> error option \<Rightarrow> world" where
  "fetchUpdatedSection_catch r = fst r"

subsection \<open>The change handler\<close>

definition set_checked :: "nat \<Rightarrow> element list \<Rightarrow> element list" where
  "set_checked i es =
     (let t = es ! i
      in (map (\<lambda>e. if el_tag t = Radio \<and> el_tag e = Radio \<and> el_name e = el_name t
                    then e\<lparr>el_checked := False\<rparr> else e) es)
           [i := t\<lparr>el_checked := True\<rparr>])"

fun first_index :: "('a \<Rightarrow> bool) \<Rightarrow> 'a list \<Rightarrow> nat option" where
  "first_index P [] = None"
| "first_index P (x # xs) = (if P x then Some 0 else map_option Suc (first_index P xs))"

text \<open>
  \<^verbatim>\<open>updateSelectedOption\<close> with an element, given by its position. Setting \<^verbatim>\<open>checked\<close> on a
  radio input unchecks the other radio inputs of its group, as the browser does.
\<close>

definition updateSelectedOption :: "world \<Rightarrow> nat \<Rightarrow> world \<times> error option" where
  "updateSelectedOption s i =
     (let target = elements s ! i
      in if is_input target then (s\<lparr>elements := set_checked i (elements s)\<rparr>, None)
         else if el_tag target = SelectTag
         then (let own = (\<lambda>e. el_tag e = OptionTag \<and> el_select e = el_select target)
               in case first_index (\<lambda>e. own e \<and> el_value e = el_value target) (elements s) of
                    None \<Rightarrow> (s, Some OptionNotFound)
                  | Some j \<Rightarrow>
                      (s\<lparr>elements :=
                           (map (\<lambda>e. if own e then e\<lparr>el_checked := False\<rparr> else e) (elements s))
                             [j := (elements s ! j)\<lparr>el_checked := True\<rparr>]\<rparr>, None))
         else (s, None))"

text \<open>\<^verbatim>\<open>updateSelectedOption\<close> with a string: the first element carrying that id.\<close>

definition updateSelectedOption_id :: "world \<Rightarrow> string \<Rightarrow> world \<times> error option" where
  "updateSelectedOption_id s target =
     (case first_index (\<lambda>e. optionValueId e = Some target) (elements s) of
        None \<Rightarrow> (s, Some TargetNotFound)
      | Some i \<Rightarrow> updateSelectedOption s i)"

definition set_variant :: "string option \<Rightarrow> location \<Rightarrow> location" where
  "set_variant v url = (if truthy v then url\<lparr>variant_param := v\<rparr> else url\<lparr>variant_param := None\<rparr>)"

definition replaceState_if_changed :: "location \<Rightarrow> world \<Rightarrow> world" where
  "replaceState_if_changed url s =
     (if url \<noteq> window_location s
      then s\<lparr>window_location := url, effects := effects s @ [ReplaceState url]\<rparr> else s)"

text \<open>
  \<^verbatim>\<open>variantChanged\<close>, for the event whose target is the element at position \<open>i\<close>; a position
  beyond the subtree stands for a target that is no \<^verbatim>\<open>HTMLElement\<close>. The two ways out of
  the method are written apart: \<open>serve_from_cache\<close> is the body of the \<^verbatim>\<open>if\<close> of line 480
  (lines 482 to 500), \<open>fetch_and_update_address\<close> is what follows it (lines 504 to 523).

  \<^verbatim>\<open>event.target\<close> is a live node. What the handler reads from it before the cached
  fragment is applied (lines 462 to 478) is read from the target as it was; line 490 reads
  \<^verbatim>\<open>event.target.dataset.variantId\<close> after line 486 has morphed the picker, so it reads the
  node at the target's position in the markup that is there then: \<open>live_target\<close>. A target
  whose position is beyond the new markup has been removed by the morph and still carries
  what it carried.
\<close>

definition isOnProductPage :: "world \<Rightarrow> element \<Rightarrow> bool" where
  "isOnProductPage s target =
     (template_name s = ''product'' \<and> \<not> in_product_card target
      \<and> \<not> in_quick_add_dialog target)"

definition loadsNewProduct :: "world \<Rightarrow> element \<Rightarrow> bool" where
  "loadsNewProduct s target =
     (let currentUrl = map_option before_query (dataset_productUrl s);
          newUrl = connectedProductUrl target
      in isOnProductPage s target \<and> truthy newUrl \<and> newUrl \<noteq> currentUrl)"

definition live_target :: "world \<Rightarrow> nat \<Rightarrow> element \<Rightarrow> element" where
  "live_target s i target = (if i < length (elements s) then elements s ! i else target)"

definition serve_from_cache ::
  "world \<Rightarrow> nat \<Rightarrow> element \<Rightarrow> string \<Rightarrow> bool \<Rightarrow> bool \<Rightarrow> world \<times> error option" where
  "serve_from_cache s i target cachedHtmlText loads isColorChange =
     (case updateWithCachedHtml s (parseFromString s cachedHtmlText) loads isColorChange of
        (s1, Some err) \<Rightarrow> (s1, Some err)
      | (s1, None) \<Rightarrow>
          (replaceState_if_changed
             (set_variant (variantId (live_target s1 i target)) (window_location s1)) s1,
           None))"

definition fetch_and_update_address ::
  "world \<Rightarrow> element \<Rightarrow> string \<Rightarrow> bool \<Rightarrow> bool \<Rightarrow> bool \<Rightarrow> world" where
  "fetch_and_update_address s target requestUrl onProductPage loads isColorChange =
     (let s1 = fetchUpdatedSection s requestUrl loads isColorChange;
          url = window_location s1;
          url1 = (if onProductPage then set_variant (variantId target) url else url);
          url2 = (if loads then url1\<lparr>pathname := the (connectedProductUrl target)\<rparr> else url1)
      in replaceState_if_changed url2 s1)"

definition resolve_selection :: "world \<Rightarrow> nat \<Rightarrow> element \<Rightarrow> world \<times> error option" where
  "resolve_selection s i target =
     (let onProductPage = isOnProductPage s target;
          loads = loadsNewProduct s target
      in case buildRequestUrl s target None [] of
           (s1, Inl err) \<Rightarrow> (s1, Some err)
         | (s1, Inr requestUrl) \<Rightarrow>
             (let cachedHtmlText = map_of (htmlCache s1) requestUrl;
                  isColorChange = isColorOption target
              in if truthy cachedHtmlText \<and> onProductPage \<and> isColorChange
                 then serve_from_cache s1 i target (the cachedHtmlText) loads isColorChange
                 else (fetch_and_update_address s1 target requestUrl onProductPage loads
                         isColorChange, None)))"

definition variantChanged :: "world \<Rightarrow> nat \<Rightarrow> world \<times> error option" where
  "variantChanged s i =
     (if \<not> i < length (elements s) then (s, None)
      else case updateSelectedOption s i of
             (s1, Some err) \<Rightarrow> (s1, Some err)
           | (s1, None) \<Rightarrow>
               (let target = elements s1 ! i
                in resolve_selection
                     (s1\<lparr>effects := effects s1
                           @ [VariantSelected
                                (case optionValueId target of None \<Rightarrow> [] | Some v \<Rightarrow> v)]\<rparr>)
                     i target))"

subsection \<open>Attaching and detaching\<close>

text \<open>
  \<^verbatim>\<open>super.connectedCallback()\<close> and \<^verbatim>\<open>super.disconnectedCallback()\<close> belong to the base
  class \<^verbatim>\<open>Component\<close>, which is not among the sources, and are left out. The two hover
  handlers only write the name of the hovered or selected value into the swatch label; of
  them the model keeps whether they are attached. \<open>change_listeners\<close> counts the listeners
  for \<^verbatim>\<open>change\<close>: every \<^verbatim>\<open>connectedCallback\<close> adds one and nothing removes them.
\<close>

definition setupVariantHoverListeners :: "world \<Rightarrow> world" where
  "setupVariantHoverListeners s =
     (if listenersAttached s then s
      else s\<lparr>boundHoverHandler := True, boundLeaveHandler := True, listenersAttached := True\<rparr>)"

definition connectedCallback :: "world \<Rightarrow> world" where
  "connectedCallback s =
     (let s1 = setupVariantHoverListeners (s\<lparr>change_listeners := Suc (change_listeners s)\<rparr>)
      in if has_requestIdleCallback s1
         then s1\<lparr>tasks := tasks s1
                    @ [IdleCallback 100 [CacheCurrentPage, PrefetchAvailableColorVariants]]\<rparr>
         else s1\<lparr>tasks := tasks s1
                    @ [Timeout 100 [CacheCurrentPage, PrefetchAvailableColorVariants]]\<rparr>)"

definition disconnectedCallback :: "world \<Rightarrow> world" where
  "disconnectedCallback s =
     (let s1 = (if listenersAttached s \<and> boundHoverHandler s \<and> boundLeaveHandler s
                then s\<lparr>listenersAttached := False, boundHoverHandler := False,
                        boundLeaveHandler := False\<rparr>
                else s)
      in s1\<lparr>htmlCache := []\<rparr>)"

subsection \<open>What the browser does\<close>

text \<open>
  The browser runs a scheduled callback, and settles a network operation. An operation that
  was aborted rejects with an \<^verbatim>\<open>AbortError\<close>, whatever arrives for it afterwards: the
  \<^verbatim>\<open>then\<close> callbacks do not run. A user-triggered one that fails rejects too, and the
  \<^verbatim>\<open>catch\<close> callback ignores it.
\<close>

definition run_action :: "world \<Rightarrow> action \<Rightarrow> world \<times> error option" where
  "run_action s a =
     (case a of
        CacheCurrentPage \<Rightarrow> (cacheCurrentPage s, None)
      | PrefetchAvailableColorVariants \<Rightarrow> prefetchAvailableColorVariants s)"

fun run_actions :: "world \<Rightarrow> action list \<Rightarrow> world \<times> error option" where
  "run_actions s [] = (s, None)"
| "run_actions s (a # as) =
     (case run_action s a of
        (s1, Some err) \<Rightarrow> (s1, Some err)
      | (s1, None) \<Rightarrow> run_actions s1 as)"

definition task_body :: "task \<Rightarrow> action list" where
  "task_body t = (case t of IdleCallback _ body \<Rightarrow> body | Timeout _ body \<Rightarrow> body)"

definition run_task :: "world \<Rightarrow> nat \<Rightarrow> world \<times> error option" where
  "run_task s n =
     (if n < length (tasks s)
      then run_actions (s\<lparr>tasks := take n (tasks s) @ drop (Suc n) (tasks s)\<rparr>)
             (task_body (tasks s ! n))
      else (s, None))"

definition fetch_settled :: "world \<Rightarrow> nat \<Rightarrow> response \<Rightarrow> world" where
  "fetch_settled s n resp =
     (if n < length (requests s) \<and> req_status (requests s ! n) = Pending
      then (let r = requests s ! n;
                s1 = s\<lparr>requests := (requests s)[n := r\<lparr>req_status := Settled\<rparr>]\<rparr>
            in case req_kind r of
                 PrefetchFetch \<Rightarrow> prefetchSingleVariant_resume s1 (req_url r) resp
               | UserFetch shouldMorphMain isColorChange \<Rightarrow>
                   (case resp of
                      NetworkError \<Rightarrow> s1
                    | Response ok responseText \<Rightarrow>
                        fetchUpdatedSection_catch
                          (fetchUpdatedSection_then s1 responseText shouldMorphMain
                             isColorChange)))
      else s)"

text \<open>
  The markup of the page's main element belongs to the page: other components rewrite it,
  which is the event \<open>MainChanged\<close>.

  A change event: the browser has set the new state of the control (a radio input is
  checked and its group unchecked; a select has its new value) and then calls every
  listener that \<^verbatim>\<open>connectedCallback\<close> has added.
\<close>

definition user_input :: "world \<Rightarrow> nat \<Rightarrow> string \<Rightarrow> world" where
  "user_input s i v =
     (if \<not> i < length (elements s) then s
      else if is_input (elements s ! i) then s\<lparr>elements := set_checked i (elements s)\<rparr>
      else if el_tag (elements s ! i) = SelectTag
      then s\<lparr>elements := (elements s)[i := (elements s ! i)\<lparr>el_value := v\<rparr>]\<rparr>
      else s)"

datatype event =
  Connect | Disconnect | Change nat string | RunTask nat | Settle nat response
| MainChanged "string option"

definition step :: "world \<Rightarrow> event \<Rightarrow> world" where
  "step s ev =
     (case ev of
        Connect \<Rightarrow> connectedCallback s
      | Disconnect \<Rightarrow> disconnectedCallback s
      | Change i v \<Rightarrow>
          ((\<lambda>w. fst (variantChanged w i)) ^^ change_listeners s) (user_input s i v)
      | RunTask n \<Rightarrow> fst (run_task s n)
      | Settle n resp \<Rightarrow> fetch_settled s n resp
      | MainChanged m \<Rightarrow> s\<lparr>page_main := m\<rparr>)"

definition run :: "world \<Rightarrow> event list \<Rightarrow> world" where
  "run s evs = foldl step s evs"

subsection \<open>What a change event asks for\<close>

text \<open>
  The target as \<^verbatim>\<open>variantChanged\<close> sees it once \<^verbatim>\<open>updateSelectedOption\<close> has run, and the
  request URL the handler builds for it.
\<close>

definition event_target :: "world \<Rightarrow> nat \<Rightarrow> element" where
  "event_target s i = elements (fst (updateSelectedOption s i)) ! i"

definition built_key :: "world \<Rightarrow> nat \<Rightarrow> error + string" where
  "built_key s i =
     snd (buildRequestUrl (fst (updateSelectedOption s i)) (event_target s i) None [])"

subsection \<open>The invariant of the cache\<close>

definition cache_ok :: "(string \<times> string) list \<Rightarrow> bool" where
  "cache_ok c = (distinct (map fst c) \<and> length c \<le> MAX_CACHE_SIZE)"

subsection \<open>The invariant of the requests\<close>

text \<open>
  Every user-triggered fetch that is pending is the one of the current abort controller.
\<close>

definition pending_user :: "request \<Rightarrow> bool" where
  "pending_user r = (req_status r = Pending \<and> req_kind r \<noteq> PrefetchFetch)"

definition one_pending :: "nat option \<Rightarrow> request list \<Rightarrow> bool" where
  "one_pending controller rs =
     (\<forall>n \<in> set [0..<length rs]. pending_user (rs ! n) \<longrightarrow> controller = Some n)"

definition requests_ok :: "world \<Rightarrow> bool" where
  "requests_ok s = one_pending (abortController s) (requests s)"

subsection \<open>An example page\<close>

text \<open>
  A shirt with two colours and two sizes on its product page. The server answers with one
  of four pages, named by the text of their main element.
\<close>

definition radio :: "string \<Rightarrow> string \<Rightarrow> string \<Rightarrow> string \<Rightarrow> nat \<Rightarrow> bool \<Rightarrow> element" where
  "radio legend val oid vid fs chk =
     \<lparr>el_tag = Radio, el_name = legend, el_value = val, el_checked = chk,
      optionValueId = Some oid, variantId = Some vid, connectedProductUrl = None,
      el_fieldset = Some fs, fs_variant_option = True, fs_legend = Some legend,
      el_select = None, label_hidden = False, in_product_card = False,
      in_quick_add_dialog = False\<rparr>"

definition shirt_elements :: "bool \<Rightarrow> bool \<Rightarrow> element list" where
  "shirt_elements blue large =
     [radio ''Color'' ''Red'' ''1'' (if large then ''12'' else ''11'') 0 (\<not> blue),
      radio ''Color'' ''Blue'' ''2'' (if large then ''22'' else ''21'') 0 blue,
      radio ''Size'' ''M'' ''3'' (if blue then ''21'' else ''11'') 1 (\<not> large),
      radio ''Size'' ''L'' ''4'' (if blue then ''22'' else ''12'') 1 large]"

definition no_document :: document where
  "no_document = \<lparr>doc_payload = None, doc_payload_is_json = False,
                   doc_picker = (\<lambda>_. None), doc_main = None\<rparr>"

definition shirt_document :: "bool \<Rightarrow> bool \<Rightarrow> string \<Rightarrow> document" where
  "shirt_document blue large text =
     \<lparr>doc_payload = Some ''{}'', doc_payload_is_json = True,
      doc_picker = (\<lambda>t. if t = ''variant-picker''
                         then Some \<lparr>src_productId = Some ''7'',
                                    src_productUrl = Some ''/products/shirt'',
                                    src_elements = shirt_elements blue large\<rparr>
                         else None),
      doc_main = Some text\<rparr>"

text \<open>The page of the blue shirt in M when that variant does not exist: no variant id.\<close>

definition shirt_document_gone :: "string \<Rightarrow> document" where
  "shirt_document_gone text =
     \<lparr>doc_payload = Some ''{}'', doc_payload_is_json = True,
      doc_picker = (\<lambda>t. if t = ''variant-picker''
                         then Some \<lparr>src_productId = Some ''7'',
                                    src_productUrl = Some ''/products/shirt'',
                                    src_elements =
                                      (shirt_elements True False)
                                        [1 := (shirt_elements True False ! 1)
                                                \<lparr>variantId := None\<rparr>]\<rparr>
                         else None),
      doc_main = Some text\<rparr>"

definition shirt_parse :: "string \<Rightarrow> document" where
  "shirt_parse text =
     (if text = ''<main>red m</main>'' then shirt_document False False text
      else if text = ''<main>blue m</main>'' then shirt_document True False text
      else if text = ''<main>blue m gone</main>'' then shirt_document_gone text
      else if text = ''<main>red l</main>'' then shirt_document False True text
      else if text = ''<main>blue l</main>'' then shirt_document True True text
      else if text = ''<main>sold out</main>'' then no_document\<lparr>doc_main := Some text\<rparr>
      else no_document)"

definition shirt :: world where
  "shirt = \<lparr>pendingRequestUrl = None, abortController = None, htmlCache = [],
            listenersAttached = False, boundHoverHandler = False, boundLeaveHandler = False,
            change_listeners = 0, tagName = ''VARIANT-PICKER'',
            dataset_productUrl = Some ''/products/shirt'', dataset_productId = Some ''7'',
            elements = shirt_elements False False, in_card_context = False,
            template_name = ''product'', has_requestIdleCallback = True,
            page_main = Some ''<main>red m</main>'',
            window_location = \<lparr>pathname = ''/products/shirt'', variant_param = None\<rparr>,
            parseFromString = shirt_parse, requests = [], tasks = [], effects = []\<rparr>"

text \<open>A cache at its capacity: forty-nine other pages, then the page of the red shirt in M.\<close>

definition full_cache :: "(string \<times> string) list" where
  "full_cache =
     map (\<lambda>n. (''/products/shirt?option_values=5'' @ replicate n CHR ''0'',
                ''<main>filler</main>'')) [0..<49]
     @ [(''/products/shirt?option_values=1,3'', ''<main>red m</main>'')]"

definition shirt_full :: world where
  "shirt_full = shirt\<lparr>htmlCache := full_cache\<rparr>"

definition shirt_full_blue_l :: world where
  "shirt_full_blue_l = shirt_full\<lparr>elements := shirt_elements True True\<rparr>"

text \<open>
  A colour that is a product of its own in a combined listing, and the shirt with that
  colour among its swatches: the user picks green and then L, once with the fetch for green
  still pending (\<open>combined_pending\<close>) and once on a page where green is checked and nothing
  was fetched (\<open>combined_fresh\<close>). Then the shirt whose idle callback has run and
  whose page of the blue shirt has been prefetched, after the user went to L and back to M,
  whose fetch is pending, and then picks blue (\<open>shirt_back_to_m\<close>: the controls are still
  those rendered for L); the shirt on the address of variant 11 whose prefetched page of the blue shirt
  has no variant (\<open>shirt_gone\<close>); the shirt whose prefetch was answered by a page without
  picker; and a picker of the swatches kind on a collection page.
\<close>

definition green :: element where
  "green = (radio ''Color'' ''Green'' ''9'' ''91'' 0 False)
             \<lparr>connectedProductUrl := Some ''/products/green-shirt''\<rparr>"

definition combined :: world where
  "combined =
     shirt\<lparr>elements := [radio ''Color'' ''Red'' ''1'' ''11'' 0 True,
                          radio ''Color'' ''Blue'' ''2'' ''21'' 0 False,
                          green,
                          radio ''Size'' ''M'' ''3'' ''11'' 1 True,
                          radio ''Size'' ''L'' ''4'' ''12'' 1 False]\<rparr>"

definition combined_pending :: world where
  "combined_pending = user_input (run combined [Connect, Change 2 []]) 4 []"

definition combined_fresh :: world where
  "combined_fresh = user_input (user_input (run combined [Connect]) 2 []) 4 []"




definition shirt_swatches :: world where
  "shirt_swatches = shirt\<lparr>tagName := ''SWATCHES-VARIANT-PICKER-COMPONENT'',
                           in_card_context := True, template_name := ''collection''\<rparr>"

section \<open>Properties\<close>

subsection \<open>The cache as a list\<close>

lemma update_fresh: "k \<notin> fst ` set c \<Longrightarrow> AList.update k v c = c @ [(k, v)]"
  by (induction c) auto

lemma length_update_le: "length (AList.update k v c) \<le> Suc (length c)"
  by (induction c) auto

lemma length_update_present: "k \<in> fst ` set c \<Longrightarrow> length (AList.update k v c) = length c"
  by (induction c) auto

lemma evict_oldest_tl: "distinct (map fst c) \<Longrightarrow> evict_oldest c = tl c"
  by (cases c) (auto simp: evict_oldest_def)

lemma distinct_cache_put: "distinct (map fst c) \<Longrightarrow> distinct (map fst (cache_put k v c))"
  by (simp add: cache_put_def evict_oldest_tl distinct_update distinct_tl map_tl)

lemma length_cache_put:
  assumes "distinct (map fst c)" "length c \<le> MAX_CACHE_SIZE"
  shows "length (cache_put k v c) \<le> MAX_CACHE_SIZE"
proof (cases "length c \<ge> MAX_CACHE_SIZE")
  case True
  then have "length (tl c) < MAX_CACHE_SIZE" using assms by (simp add: MAX_CACHE_SIZE_def)
  moreover have "length (AList.update k v (tl c)) \<le> Suc (length (tl c))"
    by (rule length_update_le)
  ultimately show ?thesis using True assms by (simp add: cache_put_def evict_oldest_tl)
next
  case False
  moreover have "length (AList.update k v c) \<le> Suc (length c)" by (rule length_update_le)
  ultimately show ?thesis by (simp add: cache_put_def)
qed

lemma cache_put_full:
  assumes "distinct (map fst c)" "length c = MAX_CACHE_SIZE"
  shows "cache_put k v c = AList.update k v (tl c)"
  using assms by (simp add: cache_put_def evict_oldest_tl)

lemma cache_put_full_fresh:
  assumes "distinct (map fst c)" "length c = MAX_CACHE_SIZE" "k \<notin> fst ` set c"
  shows "cache_put k v c = tl c @ [(k, v)]"
proof -
  have "k \<notin> fst ` set (tl c)" using assms(3) by (cases c) auto
  then show ?thesis using assms by (simp add: cache_put_full update_fresh)
qed

subsection \<open>Who writes the cache\<close>

lemma cache_buildRequestUrl: "htmlCache (fst (buildRequestUrl s e src vs)) = htmlCache s"
  by (simp add: buildRequestUrl_def Let_def split: sum.splits)

lemma cache_buildHoverUrl: "htmlCache (fst (buildHoverUrl s e)) = htmlCache s"
  by (simp add: buildHoverUrl_def Let_def cache_buildRequestUrl split: option.splits)

lemma cache_prefetchSingleVariant: "htmlCache (prefetchSingleVariant s e) = htmlCache s"
proof -
  obtain s1 r where b: "buildHoverUrl s e = (s1, r)" by (cases "buildHoverUrl s e")
  then have "htmlCache s1 = htmlCache s" using cache_buildHoverUrl [of s e] by simp
  then show ?thesis using b by (cases r) (simp_all add: prefetchSingleVariant_def)
qed

lemma cache_prefetch_each: "htmlCache (fst (prefetch_each s cur es)) = htmlCache s"
proof (induction es arbitrary: s cur)
  case Nil
  then show ?case by simp
next
  case (Cons e es)
  obtain s1 r where b: "buildHoverUrl s e = (s1, r)" by (cases "buildHoverUrl s e")
  then have c1: "htmlCache s1 = htmlCache s" using cache_buildHoverUrl [of s e] by simp
  show ?case
    by (cases r) (simp_all add: Let_def b c1 Cons.IH cache_prefetchSingleVariant)
qed

lemma cache_prefetchAvailableColorVariants:
  "htmlCache (fst (prefetchAvailableColorVariants s)) = htmlCache s"
  by (simp add: prefetchAvailableColorVariants_def cache_prefetch_each)

lemma cache_prefetchAfterSizeChange: "htmlCache (prefetchAfterSizeChange s) = htmlCache s"
  by (simp add: prefetchAfterSizeChange_def)

lemma cache_updateVariantPicker: "htmlCache (fst (updateVariantPicker s d)) = htmlCache s"
  by (simp add: updateVariantPicker_def morph_picker_def Let_def split: option.splits)

lemma cache_updateMain: "htmlCache (fst (updateMain s d)) = htmlCache s"
  by (simp add: updateMain_def morph_main_def split: option.splits)

lemma cache_apply_html: "htmlCache (fst (apply_html s d m c)) = htmlCache s"
proof (cases m)
  case True
  obtain s1 r where u: "updateMain s d = (s1, r)" by (cases "updateMain s d")
  then have "htmlCache s1 = htmlCache s" using cache_updateMain [of s d] by simp
  then show ?thesis using True u
    by (cases r) (simp_all add: apply_html_def cache_prefetchAfterSizeChange)
next
  case False
  obtain s1 r where u: "updateVariantPicker s d = (s1, r)" by (cases "updateVariantPicker s d")
  then have "htmlCache s1 = htmlCache s" using cache_updateVariantPicker [of s d] by simp
  then show ?thesis using False u
    by (cases r)
       (simp_all add: apply_html_def cache_prefetchAfterSizeChange
          split: sum.splits option.splits)
qed

lemma cache_updateWithCachedHtml: "htmlCache (fst (updateWithCachedHtml s d m c)) = htmlCache s"
  by (simp add: updateWithCachedHtml_def cache_apply_html)

lemma cache_fetchUpdatedSection: "htmlCache (fetchUpdatedSection s u m c) = htmlCache s"
  by (simp add: fetchUpdatedSection_def Let_def)

lemma cache_fetchUpdatedSection_then:
  "htmlCache (fst (fetchUpdatedSection_then s t m c)) = htmlCache s"
  by (simp add: fetchUpdatedSection_then_def Let_def cache_apply_html)

lemma cache_updateSelectedOption: "htmlCache (fst (updateSelectedOption s i)) = htmlCache s"
  by (simp add: updateSelectedOption_def Let_def split: option.splits)

lemma cache_replaceState: "htmlCache (replaceState_if_changed u s) = htmlCache s"
  by (simp add: replaceState_if_changed_def)

lemma cache_serve_from_cache:
  "htmlCache (fst (serve_from_cache s i t h l c)) = htmlCache s"
proof -
  obtain s1 r where u: "updateWithCachedHtml s (parseFromString s h) l c = (s1, r)"
    by (cases "updateWithCachedHtml s (parseFromString s h) l c")
  then have "htmlCache s1 = htmlCache s"
    using cache_updateWithCachedHtml [of s "parseFromString s h" l c] by simp
  then show ?thesis using u
    by (cases r) (simp_all add: serve_from_cache_def cache_replaceState)
qed

lemma cache_fetch_and_update_address:
  "htmlCache (fetch_and_update_address s t u p l c) = htmlCache s"
  by (simp add: fetch_and_update_address_def Let_def cache_replaceState
        cache_fetchUpdatedSection)

lemma cache_resolve_selection: "htmlCache (fst (resolve_selection s i t)) = htmlCache s"
proof -
  obtain s1 r where b: "buildRequestUrl s t None [] = (s1, r)"
    by (cases "buildRequestUrl s t None []")
  then have "htmlCache s1 = htmlCache s" using cache_buildRequestUrl [of s t None "[]"] by simp
  then show ?thesis using b
    by (cases r)
       (simp_all add: resolve_selection_def Let_def cache_serve_from_cache
          cache_fetch_and_update_address)
qed

lemma cache_variantChanged: "htmlCache (fst (variantChanged s i)) = htmlCache s"
proof -
  obtain s1 r where u: "updateSelectedOption s i = (s1, r)"
    by (cases "updateSelectedOption s i")
  then have "htmlCache s1 = htmlCache s" using cache_updateSelectedOption [of s i] by simp
  then show ?thesis using u
    by (cases r) (simp_all add: variantChanged_def Let_def cache_resolve_selection)
qed

lemma cache_variantChanged_pow:
  "htmlCache (((\<lambda>w. fst (variantChanged w i)) ^^ n) s) = htmlCache s"
  by (induction n) (simp_all add: cache_variantChanged)

lemma cache_user_input: "htmlCache (user_input s i v) = htmlCache s"
  by (simp add: user_input_def)

lemma cache_ok_cacheCurrentPage: "cache_ok (htmlCache s) \<Longrightarrow> cache_ok (htmlCache (cacheCurrentPage s))"
  by (simp add: cacheCurrentPage_def cache_ok_def distinct_cache_put length_cache_put
        split: option.splits)

lemma cache_ok_resume:
  "cache_ok (htmlCache s) \<Longrightarrow> cache_ok (htmlCache (prefetchSingleVariant_resume s u r))"
  by (simp add: prefetchSingleVariant_resume_def cache_ok_def distinct_cache_put
        length_cache_put split: option.splits response.splits)

lemma cache_ok_run_action: "cache_ok (htmlCache s) \<Longrightarrow> cache_ok (htmlCache (fst (run_action s a)))"
  by (cases a) (simp_all add: run_action_def cache_ok_cacheCurrentPage
        cache_prefetchAvailableColorVariants)

lemma cache_ok_run_actions:
  "cache_ok (htmlCache s) \<Longrightarrow> cache_ok (htmlCache (fst (run_actions s as)))"
proof (induction as arbitrary: s)
  case Nil
  then show ?case by simp
next
  case (Cons a as)
  obtain s1 r where a: "run_action s a = (s1, r)" by (cases "run_action s a")
  then have "cache_ok (htmlCache s1)" using cache_ok_run_action [OF Cons.prems, of a] by simp
  then show ?case using a Cons.IH [of s1] by (cases r) simp_all
qed

lemma cache_ok_run_task: "cache_ok (htmlCache s) \<Longrightarrow> cache_ok (htmlCache (fst (run_task s n)))"
  by (simp add: run_task_def cache_ok_run_actions)

lemma cache_ok_fetch_settled:
  "cache_ok (htmlCache s) \<Longrightarrow> cache_ok (htmlCache (fetch_settled s n r))"
  by (simp add: fetch_settled_def Let_def cache_ok_resume fetchUpdatedSection_catch_def
        cache_fetchUpdatedSection_then split: request_kind.splits response.splits)

lemma cache_ok_step: "cache_ok (htmlCache s) \<Longrightarrow> cache_ok (htmlCache (step s ev))"
proof (cases ev)
  case Connect
  assume "cache_ok (htmlCache s)"
  then show ?thesis using Connect
    by (simp add: step_def connectedCallback_def setupVariantHoverListeners_def Let_def)
next
  case Disconnect
  then show ?thesis
    by (simp add: step_def disconnectedCallback_def cache_ok_def Let_def)
next
  case (Change i v)
  assume "cache_ok (htmlCache s)"
  then show ?thesis using Change
    by (simp add: step_def cache_variantChanged_pow cache_user_input)
next
  case (RunTask n)
  assume "cache_ok (htmlCache s)"
  then show ?thesis using RunTask by (simp add: step_def cache_ok_run_task)
next
  case (Settle n r)
  assume "cache_ok (htmlCache s)"
  then show ?thesis using Settle by (simp add: step_def cache_ok_fetch_settled)
next
  case (MainChanged m)
  assume "cache_ok (htmlCache s)"
  then show ?thesis using MainChanged by (simp add: step_def)
qed

lemma cache_ok_run: "cache_ok (htmlCache s) \<Longrightarrow> cache_ok (htmlCache (run s evs))"
  unfolding run_def by (induction evs arbitrary: s) (simp_all add: cache_ok_step)

subsection \<open>What the methods leave alone\<close>

lemma selectedOptionsValues_pending [simp]:
  "selectedOptionsValues (s\<lparr>pendingRequestUrl := p\<rparr>) = selectedOptionsValues s"
  by (simp add: selectedOptionsValues_def selectedOptions_def)

lemma selectedOptionsValues_effects [simp]:
  "selectedOptionsValues (s\<lparr>effects := e\<rparr>) = selectedOptionsValues s"
  by (simp add: selectedOptionsValues_def selectedOptions_def)

lemma buildRequestUrl_fst:
  "fst (buildRequestUrl s t src vs)
     = s\<lparr>pendingRequestUrl :=
           or_js (or_js (connectedProductUrl t) (pendingRequestUrl s)) (dataset_productUrl s)\<rparr>"
  by (simp add: buildRequestUrl_def Let_def split: sum.splits)

lemma buildRequestUrl_snd_effects:
  "snd (buildRequestUrl (s\<lparr>effects := e\<rparr>) t src vs) = snd (buildRequestUrl s t src vs)"
  by (simp add: buildRequestUrl_def Let_def split: sum.splits)

lemma updateSelectedOption_frame:
  "requests (fst (updateSelectedOption s i)) = requests s
   \<and> window_location (fst (updateSelectedOption s i)) = window_location s
   \<and> abortController (fst (updateSelectedOption s i)) = abortController s
   \<and> parseFromString (fst (updateSelectedOption s i)) = parseFromString s
   \<and> page_main (fst (updateSelectedOption s i)) = page_main s
   \<and> template_name (fst (updateSelectedOption s i)) = template_name s
   \<and> dataset_productUrl (fst (updateSelectedOption s i)) = dataset_productUrl s
   \<and> tagName (fst (updateSelectedOption s i)) = tagName s
   \<and> effects (fst (updateSelectedOption s i)) = effects s
   \<and> htmlCache (fst (updateSelectedOption s i)) = htmlCache s"
  by (simp add: updateSelectedOption_def Let_def split: option.splits)




lemma length_abort [simp]: "length (abort c rs) = length rs"
  by (simp add: abort_def split: option.splits)

lemma apply_html_frame:
  "requests (fst (apply_html s d m c)) = requests s
   \<and> window_location (fst (apply_html s d m c)) = window_location s
   \<and> abortController (fst (apply_html s d m c)) = abortController s
   \<and> parseFromString (fst (apply_html s d m c)) = parseFromString s"
  by (simp add: apply_html_def updateMain_def updateVariantPicker_def morph_main_def
        morph_picker_def prefetchAfterSizeChange_def Let_def
        split: option.splits sum.splits prod.splits)

lemma apply_html_main_ok:
  assumes "page_main s \<noteq> None" "doc_main d = Some newMain"
  shows "page_main (fst (apply_html s d True c)) = Some newMain
       \<and> effects (fst (apply_html s d True c)) = effects s @ [MorphMain newMain]"
  using assms
  by (auto simp add: apply_html_def updateMain_def morph_main_def prefetchAfterSizeChange_def)

lemma apply_html_picker_ok:
  assumes "doc_picker d (toLowerCase (tagName s)) = Some src"
  shows "elements (fst (apply_html s d False c)) = src_elements src
       \<and> MorphPicker \<in> set (effects (fst (apply_html s d False c)))"
  using assms
  by (auto simp add: apply_html_def updateVariantPicker_def morph_picker_def
        prefetchAfterSizeChange_def Let_def split: sum.splits option.splits)

lemma apply_html_tasks:
  "snd (apply_html s d m False) = None \<Longrightarrow>
     tasks (fst (apply_html s d m False))
       = tasks s @ [if has_requestIdleCallback s
                    then IdleCallback 50 [CacheCurrentPage, PrefetchAvailableColorVariants]
                    else Timeout 50 [CacheCurrentPage, PrefetchAvailableColorVariants]]"
  by (auto simp add: apply_html_def updateMain_def updateVariantPicker_def morph_main_def
        morph_picker_def prefetchAfterSizeChange_def Let_def
        split: option.splits sum.splits prod.splits if_splits)

lemma run_scheduled_task:
  "run_task (prefetchAfterSizeChange s) (length (tasks s))
     = prefetchAvailableColorVariants (cacheCurrentPage s)"
proof -
  obtain s1 r where p: "prefetchAvailableColorVariants (cacheCurrentPage s) = (s1, r)"
    by (cases "prefetchAvailableColorVariants (cacheCurrentPage s)")
  show ?thesis
    by (cases r)
       (simp_all add: run_task_def prefetchAfterSizeChange_def task_body_def run_action_def p)
qed

subsection \<open>A scheduled callback writes the snapshot\<close>

lemma run_snapshot_task:
  assumes "n < length (tasks s)"
    and "task_body (tasks s ! n) = [CacheCurrentPage, PrefetchAvailableColorVariants]"
  shows "htmlCache (fst (run_task s n)) = htmlCache (cacheCurrentPage s)"
proof -
  define s1 where "s1 = s\<lparr>tasks := take n (tasks s) @ drop (Suc n) (tasks s)\<rparr>"
  obtain s2 r where p: "prefetchAvailableColorVariants (cacheCurrentPage s1) = (s2, r)"
    by (cases "prefetchAvailableColorVariants (cacheCurrentPage s1)")
  then have "htmlCache s2 = htmlCache (cacheCurrentPage s1)"
    using cache_prefetchAvailableColorVariants [of "cacheCurrentPage s1"] by simp
  moreover have "htmlCache (cacheCurrentPage s1) = htmlCache (cacheCurrentPage s)"
    by (simp add: s1_def cacheCurrentPage_def checkedOptionValueIds_def currentPageUrl_def
          split: option.splits)
  moreover have "fst (run_task s n) = s2"
    using assms p by (cases r) (simp_all add: run_task_def s1_def [symmetric] run_action_def)
  ultimately show ?thesis by simp
qed

subsection \<open>At most one user-triggered fetch is pending\<close>

text \<open>
  \<^verbatim>\<open>fetchUpdatedSection\<close> aborts the fetch of the current controller before it starts one
  under a new controller, and nothing else starts a user-triggered fetch. So the invariant
  holds after every event, two pending user-triggered fetches are the same one, and a
  response that arrives for an aborted fetch changes nothing.
\<close>

lemma one_pending_iff:
  "one_pending c rs = (\<forall>n < length rs. pending_user (rs ! n) \<longrightarrow> c = Some n)"
  by (auto simp add: one_pending_def)

lemma one_pending_unique:
  assumes "one_pending c rs" "n < length rs" "m < length rs"
    "pending_user (rs ! n)" "pending_user (rs ! m)"
  shows "n = m"
proof -
  have "c = Some n" "c = Some m" using assms by (auto simp add: one_pending_iff)
  then show ?thesis by simp
qed

lemma one_pending_abort_append:
  assumes "one_pending c rs"
  shows "one_pending (Some (length rs))
           (abort c rs @ [\<lparr>req_url = u, req_kind = k, req_status = Pending\<rparr>])"
proof -
  have "\<not> pending_user (abort c rs ! n)" if "n < length rs" for n
  proof (cases "pending_user (rs ! n)")
    case True
    then have "c = Some n" using assms that by (simp add: one_pending_iff)
    then show ?thesis using that True by (simp add: abort_def pending_user_def)
  next
    case False
    then show ?thesis using that
      by (cases c) (auto simp add: abort_def pending_user_def nth_list_update)
  qed
  then show ?thesis
    by (auto simp add: one_pending_iff nth_append less_Suc_eq abort_def split: option.splits)
qed

lemma one_pending_prefetch:
  assumes "one_pending c rs"
  shows "one_pending c (rs @ [\<lparr>req_url = u, req_kind = PrefetchFetch, req_status = Pending\<rparr>])"
  using assms by (auto simp add: one_pending_iff nth_append pending_user_def less_Suc_eq)

lemma one_pending_settle:
  assumes "one_pending c rs"
  shows "one_pending c (rs[n := (rs ! n)\<lparr>req_status := Settled\<rparr>])"
proof (cases "n < length rs")
  case True
  then show ?thesis using assms
    by (auto simp add: one_pending_iff nth_list_update pending_user_def)
next
  case False
  then have "length rs \<le> n" by simp
  then show ?thesis using assms by (simp add: list_update_beyond)
qed


lemma buildHoverUrl_fst_requests:
  "requests (fst (buildHoverUrl s e)) = requests s
   \<and> abortController (fst (buildHoverUrl s e)) = abortController s"
  by (simp add: buildHoverUrl_def buildRequestUrl_fst Let_def split: option.splits)

lemma requests_ok_prefetchSingleVariant:
  assumes "requests_ok s"
  shows "requests_ok (prefetchSingleVariant s e)"
proof -
  obtain s1 r where b: "buildHoverUrl s e = (s1, r)" by (cases "buildHoverUrl s e")
  then have "requests s1 = requests s" "abortController s1 = abortController s"
    using buildHoverUrl_fst_requests [of s e] by simp_all
  then show ?thesis using assms b
    by (cases r) (simp_all add: prefetchSingleVariant_def requests_ok_def one_pending_prefetch)
qed

lemma requests_ok_prefetch_each:
  "requests_ok s \<Longrightarrow> requests_ok (fst (prefetch_each s cur es))"
proof (induction es arbitrary: s cur)
  case Nil
  then show ?case by simp
next
  case (Cons e es)
  obtain s1 r where b: "buildHoverUrl s e = (s1, r)" by (cases "buildHoverUrl s e")
  then have "requests s1 = requests s" "abortController s1 = abortController s"
    using buildHoverUrl_fst_requests [of s e] by simp_all
  then have ok1: "requests_ok s1" using Cons.prems by (simp add: requests_ok_def)
  show ?case
    by (cases r)
       (simp_all add: Let_def b ok1 Cons.prems Cons.IH requests_ok_prefetchSingleVariant)
qed

lemma requests_ok_run_action: "requests_ok s \<Longrightarrow> requests_ok (fst (run_action s a))"
proof (cases a)
  case CacheCurrentPage
  assume "requests_ok s"
  then show ?thesis using CacheCurrentPage
    by (simp add: run_action_def cacheCurrentPage_def requests_ok_def split: option.splits)
next
  case PrefetchAvailableColorVariants
  assume "requests_ok s"
  then show ?thesis using PrefetchAvailableColorVariants
    by (simp add: run_action_def prefetchAvailableColorVariants_def requests_ok_prefetch_each)
qed

lemma requests_ok_run_actions: "requests_ok s \<Longrightarrow> requests_ok (fst (run_actions s as))"
proof (induction as arbitrary: s)
  case Nil
  then show ?case by simp
next
  case (Cons a as)
  obtain s1 r where a: "run_action s a = (s1, r)" by (cases "run_action s a")
  then have "requests_ok s1" using requests_ok_run_action [OF Cons.prems, of a] by simp
  then show ?case using a Cons.IH [of s1] by (cases r) simp_all
qed

lemma requests_ok_run_task: "requests_ok s \<Longrightarrow> requests_ok (fst (run_task s n))"
proof -
  assume "requests_ok s"
  then have "requests_ok (s\<lparr>tasks := take n (tasks s) @ drop (Suc n) (tasks s)\<rparr>)"
    by (simp add: requests_ok_def)
  then show ?thesis by (simp add: run_task_def requests_ok_run_actions \<open>requests_ok s\<close>)
qed

lemma requests_ok_fetch_settled:
  assumes "requests_ok s"
  shows "requests_ok (fetch_settled s n resp)"
proof (cases "n < length (requests s) \<and> req_status (requests s ! n) = Pending")
  case False
  then show ?thesis using assms by (auto simp add: fetch_settled_def)
next
  case True
  define s1 where
    "s1 = s\<lparr>requests := (requests s)[n := (requests s ! n)\<lparr>req_status := Settled\<rparr>]\<rparr>"
  have ok1: "requests_ok s1"
    using assms by (simp add: s1_def requests_ok_def one_pending_settle)
  have r: "requests_ok (prefetchSingleVariant_resume s1 u resp)" for u
    using ok1
    by (simp add: prefetchSingleVariant_resume_def requests_ok_def
          split: response.splits option.splits)
  have t: "requests_ok (fst (fetchUpdatedSection_then s1 t m c))" for t m c
    using ok1 apply_html_frame [of "s1\<lparr>pendingRequestUrl := None\<rparr>"]
    by (simp add: fetchUpdatedSection_then_def Let_def requests_ok_def)
  show ?thesis
    using True ok1 r t
    by (simp add: fetch_settled_def Let_def s1_def [symmetric] fetchUpdatedSection_catch_def
          split: request_kind.splits response.splits)
qed

lemma requests_ok_variantChanged:
  assumes "requests_ok s"
  shows "requests_ok (fst (variantChanged s i))"
proof -
  obtain s1 r1 where u: "updateSelectedOption s i = (s1, r1)"
    by (cases "updateSelectedOption s i")
  note f = updateSelectedOption_frame [of s i, unfolded u, simplified]
  show ?thesis
  proof (cases "i < length (elements s) \<and> r1 = None")
    case False
    then show ?thesis using assms u f
      by (cases r1) (auto simp add: variantChanged_def requests_ok_def)
  next
    case True
    define t where "t = elements s1 ! i"
    define s2 where
      "s2 = s1\<lparr>effects := effects s1
                 @ [VariantSelected (case optionValueId t of None \<Rightarrow> [] | Some v \<Rightarrow> v)]\<rparr>"
    obtain s3 r3 where b: "buildRequestUrl s2 t None [] = (s3, r3)"
      by (cases "buildRequestUrl s2 t None []")
    have s3: "requests s3 = requests s" "abortController s3 = abortController s"
      using f buildRequestUrl_fst [of s2 t None "[]"] b by (simp_all add: s2_def)
    have v: "variantChanged s i = resolve_selection s2 i t"
      using True u by (simp add: variantChanged_def Let_def t_def s2_def)
    have c: "requests_ok (fst (serve_from_cache s3 i t h l c))" for h l c
    proof -
      obtain s4 r4 where w: "updateWithCachedHtml s3 (parseFromString s3 h) l c = (s4, r4)"
        by (cases "updateWithCachedHtml s3 (parseFromString s3 h) l c")
      have "requests s4 = requests s3 \<and> abortController s4 = abortController s3"
        using w apply_html_frame [of s3 "parseFromString s3 h" l c]
        by (auto simp add: updateWithCachedHtml_def split: if_splits)
      then show ?thesis using assms s3 w
        by (cases r4)
           (simp_all add: serve_from_cache_def requests_ok_def replaceState_if_changed_def)
    qed
    have d: "requests_ok (fetch_and_update_address s3 t url p l c)" for url p l c
      using assms s3
      by (simp add: fetch_and_update_address_def fetchUpdatedSection_def Let_def
            requests_ok_def replaceState_if_changed_def one_pending_abort_append)
    show ?thesis
    proof (cases r3)
      case (Inl err)
      then show ?thesis using assms s3 b by (simp add: v resolve_selection_def requests_ok_def)
    next
      case (Inr url)
      then show ?thesis using b c d by (simp add: v resolve_selection_def Let_def)
    qed
  qed
qed

lemma requests_ok_step: "requests_ok s \<Longrightarrow> requests_ok (step s ev)"
proof (cases ev)
  case Connect
  assume "requests_ok s"
  then show ?thesis using Connect
    by (simp add: step_def connectedCallback_def setupVariantHoverListeners_def Let_def
          requests_ok_def)
next
  case Disconnect
  assume "requests_ok s"
  then show ?thesis using Disconnect
    by (simp add: step_def disconnectedCallback_def Let_def requests_ok_def)
next
  case (Change i v)
  assume ok: "requests_ok s"
  have "requests_ok (((\<lambda>w. fst (variantChanged w i)) ^^ k) w)" if "requests_ok w" for k w
    using that by (induction k) (simp_all add: requests_ok_variantChanged)
  moreover have "requests_ok (user_input s i v)"
    using ok by (simp add: user_input_def requests_ok_def)
  ultimately show ?thesis using Change by (simp add: step_def)
next
  case (RunTask n)
  assume "requests_ok s"
  then show ?thesis using RunTask by (simp add: step_def requests_ok_run_task)
next
  case (Settle n r)
  assume "requests_ok s"
  then show ?thesis using Settle by (simp add: step_def requests_ok_fetch_settled)
next
  case (MainChanged m)
  assume "requests_ok s"
  then show ?thesis using MainChanged by (simp add: step_def requests_ok_def)
qed

lemma requests_ok_run: "requests_ok s \<Longrightarrow> requests_ok (run s evs)"
  unfolding run_def by (induction evs arbitrary: s) (simp_all add: requests_ok_step)

lemma settle_after_abort:
  "n < length (requests s) \<Longrightarrow> req_status (requests s ! n) = Aborted
     \<Longrightarrow> fetch_settled s n resp = s"
  by (simp add: fetch_settled_def)

subsection \<open>The two ways out of the change handler\<close>


lemma variantChanged_fetch:
  assumes "i < length (elements s)"
    and "snd (updateSelectedOption s i) = None"
    and "built_key s i = Inr url"
    and "\<not> (truthy (map_of (htmlCache s) url) \<and> isOnProductPage s (event_target s i)
            \<and> isColorOption (event_target s i))"
  shows "\<exists>s3. requests s3 = requests s \<and> abortController s3 = abortController s
            \<and> page_main s3 = page_main s \<and> tagName s3 = tagName s
            \<and> parseFromString s3 = parseFromString s \<and> htmlCache s3 = htmlCache s
            \<and> variantChanged s i
                = (fetch_and_update_address s3 (event_target s i) url
                     (isOnProductPage s (event_target s i))
                     (loadsNewProduct s (event_target s i))
                     (isColorOption (event_target s i)), None)"
proof -
  obtain s1 where u: "updateSelectedOption s i = (s1, None)"
    using assms(2) by (cases "updateSelectedOption s i") auto
  note f = updateSelectedOption_frame [of s i, unfolded u, simplified]
  define t where "t = elements s1 ! i"
  have t: "event_target s i = t" using u by (simp add: event_target_def t_def)
  define s2 where
    "s2 = s1\<lparr>effects := effects s1
               @ [VariantSelected (case optionValueId t of None \<Rightarrow> [] | Some v \<Rightarrow> v)]\<rparr>"
  define s3 where "s3 = fst (buildRequestUrl s2 t None [])"
  have k: "snd (buildRequestUrl s2 t None []) = Inr url"
    using assms(3) u t by (simp add: built_key_def s2_def buildRequestUrl_snd_effects)
  have b: "buildRequestUrl s2 t None [] = (s3, Inr url)"
    using k by (simp add: s3_def prod_eq_iff)
  have s3: "requests s3 = requests s" "abortController s3 = abortController s"
    "page_main s3 = page_main s" "tagName s3 = tagName s"
    "parseFromString s3 = parseFromString s" "htmlCache s3 = htmlCache s"
    using f by (simp_all add: s3_def buildRequestUrl_fst s2_def)
  have p: "isOnProductPage s2 t = isOnProductPage s t" "loadsNewProduct s2 t = loadsNewProduct s t"
    using f by (simp_all add: isOnProductPage_def loadsNewProduct_def s2_def)
  have "variantChanged s i
        = (fetch_and_update_address s3 t url (isOnProductPage s t) (loadsNewProduct s t)
             (isColorOption t), None)"
    using assms(1,4) u b s3(6) p t
    by (auto simp add: variantChanged_def Let_def resolve_selection_def
          t_def [symmetric] s2_def [symmetric])
  then show ?thesis using s3 t by auto
qed

section \<open>The claims\<close>

subsection \<open>The request URL\<close>

text \<open>
  C1, as the spec states it, does not hold: the URL that \<^verbatim>\<open>buildRequestUrl\<close> returns
  depends on the URL it stored at an earlier call. With green and L selected, on the same
  page and for the same changed value, it starts with the URL of the green shirt while the
  fetch for the green swatch is pending, and with the URL of the shirt when nothing is
  pending.
\<close>

theorem buildRequestUrl_pending_counterexample:
  "selectedOptionsValues combined_pending = selectedOptionsValues combined_fresh
   \<and> selectedOptionsValues combined_fresh = Inr [''9'', ''4'']
   \<and> dataset_productUrl combined_pending = dataset_productUrl combined_fresh
   \<and> in_card_context combined_pending = in_card_context combined_fresh
   \<and> elements combined_pending ! 4 = elements combined_fresh ! 4
   \<and> connectedProductUrl (elements combined_fresh ! 4) = None
   \<and> map req_status (requests combined_pending) = [Pending]
   \<and> requests combined_fresh = []
   \<and> snd (buildRequestUrl combined_pending (elements combined_pending ! 4) None [])
       = Inr ''/products/green-shirt?option_values=9,4''
   \<and> snd (buildRequestUrl combined_fresh (elements combined_fresh ! 4) None [])
       = Inr ''/products/shirt?option_values=9,4''"
  by code_simp

text \<open>
  C1, amended. \<^verbatim>\<open>buildRequestUrl\<close> is a function of the selected option value ids in
  document order, the product URL of the picker, its embedding in a quick-add or card
  context, the connected product URL and the id of the changed value, the two optional
  arguments, and the pending request URL: two invocations that agree on these return the
  same string, whatever else differs between the two states (the cache, the other controls,
  the requests in flight, the page).
\<close>

theorem buildRequestUrl_deterministic:
  assumes "selectedOptionsValues s = selectedOptionsValues t"
    and "dataset_productUrl s = dataset_productUrl t"
    and "in_card_context s = in_card_context t"
    and "pendingRequestUrl s = pendingRequestUrl t"
    and "connectedProductUrl a = connectedProductUrl b"
    and "optionValueId a = optionValueId b"
  shows "snd (buildRequestUrl s a source vals) = snd (buildRequestUrl t b source vals)"
  using assms by (simp add: buildRequestUrl_def Let_def split: sum.splits)

text \<open>
  The shirt with an empty cache and the shirt with a full one and an effect behind it, asked
  for the blue swatch as rendered on two different pages.
\<close>

theorem buildRequestUrl_deterministic_witness:
  "selectedOptionsValues shirt = selectedOptionsValues (shirt_full\<lparr>effects := [MorphPicker]\<rparr>)
   \<and> dataset_productUrl shirt = dataset_productUrl (shirt_full\<lparr>effects := [MorphPicker]\<rparr>)
   \<and> in_card_context shirt = in_card_context (shirt_full\<lparr>effects := [MorphPicker]\<rparr>)
   \<and> pendingRequestUrl shirt = pendingRequestUrl (shirt_full\<lparr>effects := [MorphPicker]\<rparr>)
   \<and> connectedProductUrl (shirt_elements False False ! 1)
       = connectedProductUrl (shirt_elements True True ! 1)
   \<and> optionValueId (shirt_elements False False ! 1) = optionValueId (shirt_elements True True ! 1)
   \<and> snd (buildRequestUrl shirt (shirt_elements False False ! 1) None [])
       = snd (buildRequestUrl (shirt_full\<lparr>effects := [MorphPicker]\<rparr>)
                (shirt_elements True True ! 1) None [])"
proof -
  let ?t = "shirt_full\<lparr>effects := [MorphPicker]\<rparr>"
  have h1: "selectedOptionsValues shirt = selectedOptionsValues ?t" by code_simp
  have h2: "dataset_productUrl shirt = dataset_productUrl ?t" by code_simp
  have h3: "in_card_context shirt = in_card_context ?t" by code_simp
  have h4: "pendingRequestUrl shirt = pendingRequestUrl ?t" by code_simp
  have h5: "connectedProductUrl (shirt_elements False False ! 1)
            = connectedProductUrl (shirt_elements True True ! 1)" by code_simp
  have h6: "optionValueId (shirt_elements False False ! 1)
            = optionValueId (shirt_elements True True ! 1)" by code_simp
  show ?thesis
    using buildRequestUrl_deterministic [OF h1 h2 h3 h4 h5 h6, of None "[]"] h1 h2 h3 h4 h5 h6
    by blast
qed

subsection \<open>The capacity of the cache\<close>

text \<open>
  C2. The fragment cache never holds more than 50 entries, whatever happens to the picker:
  from a state whose cache is within the bound, every sequence of events (attaching,
  detaching, changes, scheduled callbacks, settled fetches) leaves it within the bound. An
  insertion of a new key into a cache of 50 entries, by the page snapshot as well as by a
  prefetch that completes, drops the first entry of the insertion order, keeps all the
  others with their values and in their order, and puts the new entry last. Reading does
  not promote: the change handler, the only reader, leaves the cache as it is.
\<close>

theorem fragment_cache_bounded_fifo:
  assumes "distinct (map fst (htmlCache s))" and "length (htmlCache s) \<le> MAX_CACHE_SIZE"
  shows "MAX_CACHE_SIZE = 50
     \<and> length (htmlCache (run s evs)) \<le> 50
     \<and> (length (htmlCache s) = 50 \<and> checkedOptionValueIds s \<noteq> []
          \<and> page_main s = Some html \<and> currentPageUrl s \<notin> fst ` set (htmlCache s)
        \<longrightarrow> htmlCache (cacheCurrentPage s) = tl (htmlCache s) @ [(currentPageUrl s, html)])
     \<and> (length (htmlCache s) = 50 \<and> text \<noteq> [] \<and> \<not> blank text
          \<and> doc_main (parseFromString s text) = Some fragment
          \<and> url \<notin> fst ` set (htmlCache s)
        \<longrightarrow> htmlCache (prefetchSingleVariant_resume s url (Response True text))
              = tl (htmlCache s) @ [(url, fragment)])
     \<and> htmlCache (fst (variantChanged s i)) = htmlCache s"
proof -
  have ok: "cache_ok (htmlCache s)" using assms by (simp add: cache_ok_def)
  have bound: "length (htmlCache (run s evs)) \<le> 50"
    using cache_ok_run [OF ok, of evs] by (simp add: cache_ok_def MAX_CACHE_SIZE_def)
  have snapshot: "htmlCache (cacheCurrentPage s) = tl (htmlCache s) @ [(currentPageUrl s, html)]"
    if "length (htmlCache s) = 50" "checkedOptionValueIds s \<noteq> []" "page_main s = Some html"
       "currentPageUrl s \<notin> fst ` set (htmlCache s)"
    using that assms(1) by (simp add: cacheCurrentPage_def cache_put_full_fresh MAX_CACHE_SIZE_def)
  have prefetch: "htmlCache (prefetchSingleVariant_resume s url (Response True text))
                  = tl (htmlCache s) @ [(url, fragment)]"
    if "length (htmlCache s) = 50" "text \<noteq> []" "\<not> blank text"
       "doc_main (parseFromString s text) = Some fragment" "url \<notin> fst ` set (htmlCache s)"
    using that assms(1)
    by (simp add: prefetchSingleVariant_resume_def cache_put_full_fresh MAX_CACHE_SIZE_def)
  show ?thesis
    using bound snapshot prefetch by (simp add: MAX_CACHE_SIZE_def cache_variantChanged)
qed

text \<open>
  The shirt with blue and L selected, on a cache of 50 other pages.
\<close>

theorem fragment_cache_bounded_fifo_witness:
  "distinct (map fst (htmlCache shirt_full_blue_l))
   \<and> length (htmlCache shirt_full_blue_l) \<le> MAX_CACHE_SIZE
   \<and> length (htmlCache (run shirt_full_blue_l [Connect, RunTask 0])) \<le> 50
   \<and> htmlCache (cacheCurrentPage shirt_full_blue_l)
       = tl full_cache @ [(''/products/shirt?option_values=2,4'', ''<main>red m</main>'')]
   \<and> htmlCache (prefetchSingleVariant_resume shirt_full_blue_l
         ''/products/shirt?option_values=1,4'' (Response True ''<main>red l</main>''))
       = tl full_cache @ [(''/products/shirt?option_values=1,4'', ''<main>red l</main>'')]
   \<and> htmlCache (fst (variantChanged shirt_full_blue_l 0)) = full_cache"
proof -
  let ?s = shirt_full_blue_l
  have c: "htmlCache ?s = full_cache"
    by (simp add: shirt_full_blue_l_def shirt_full_def)
  have d: "distinct (map fst (htmlCache ?s))" unfolding c by code_simp
  have l: "length (htmlCache ?s) \<le> MAX_CACHE_SIZE" unfolding c by code_simp
  have u: "currentPageUrl ?s = ''/products/shirt?option_values=2,4''" by code_simp
  have p1: "length (htmlCache ?s) = 50 \<and> checkedOptionValueIds ?s \<noteq> []
            \<and> page_main ?s = Some ''<main>red m</main>''
            \<and> currentPageUrl ?s \<notin> fst ` set (htmlCache ?s)"
    by code_simp
  have p2: "length (htmlCache ?s) = 50 \<and> ''<main>red l</main>'' \<noteq> []
            \<and> \<not> blank ''<main>red l</main>''
            \<and> doc_main (parseFromString ?s ''<main>red l</main>'') = Some ''<main>red l</main>''
            \<and> ''/products/shirt?option_values=1,4'' \<notin> fst ` set (htmlCache ?s)"
    by code_simp
  show ?thesis
    using fragment_cache_bounded_fifo [OF d l, of "[Connect, RunTask 0]" "''<main>red m</main>''"
            "''<main>red l</main>''" "''<main>red l</main>''"
            "''/products/shirt?option_values=1,4''" 0] d l p1 p2
    unfolding u c by blast
qed

subsection \<open>A change served from the cache\<close>




subsection \<open>One fetch at a time\<close>

text \<open>
  C4 asks that a new selection aborts the fetch of the one before it, so that no stale
  response reaches the page. At most one user-triggered fetch is pending at any time
  (\<open>requests_ok_run\<close>, \<open>one_pending_unique\<close>) and what arrives for an aborted fetch is
  dropped (\<open>settle_after_abort\<close>). \<^verbatim>\<open>fetchUpdatedSection\<close> does abort, but the branch that
  serves a colour change from the cache returns before it is called. On the shirt: the page of the
  blue shirt in M is prefetched; the user picks L and the response is applied; the user
  picks M, whose fetch stays pending; the user picks blue, which is served from the cache
  and leaves that fetch pending; then the response for red in M arrives and is morphed into
  the picker, which shows red again while the address keeps the variant of the blue
  swatch.
\<close>

theorem stale_response_after_cached_change:
  "map req_status
     (requests (run shirt [Connect, RunTask 0, Settle 0 (Response True ''<main>blue m</main>''),
                          Change 3 [], Settle 1 (Response True ''<main>red l</main>''),
                          Change 2 []]))
     = [Settled, Settled, Pending]
   \<and> map req_status
     (requests (run shirt [Connect, RunTask 0, Settle 0 (Response True ''<main>blue m</main>''),
                          Change 3 [], Settle 1 (Response True ''<main>red l</main>''),
                          Change 2 [], Change 1 []]))
     = [Settled, Settled, Pending]
   \<and> map el_checked
     (elements (run shirt [Connect, RunTask 0, Settle 0 (Response True ''<main>blue m</main>''),
                          Change 3 [], Settle 1 (Response True ''<main>red l</main>''),
                          Change 2 [], Change 1 []]))
     = [False, True, True, False]
   \<and> map el_checked
     (elements (run shirt [Connect, RunTask 0, Settle 0 (Response True ''<main>blue m</main>''),
                          Change 3 [], Settle 1 (Response True ''<main>red l</main>''),
                          Change 2 [], Change 1 [],
                          Settle 2 (Response True ''<main>red m</main>'')]))
     = [True, False, True, False]
   \<and> drop 10
     (effects (run shirt [Connect, RunTask 0, Settle 0 (Response True ''<main>blue m</main>''),
                          Change 3 [], Settle 1 (Response True ''<main>red l</main>''),
                          Change 2 [], Change 1 [],
                          Settle 2 (Response True ''<main>red m</main>'')]))
     = [MorphPicker, VariantUpdate ''{}'' ''1'' ''7'' None]"
  by code_simp

subsection \<open>A change that is fetched\<close>

text \<open>
  C5, as the spec states it, does not hold: the response of a user-triggered fetch is
  applied but never written to the cache. The user picks blue while the cache holds the
  snapshot of the red shirt only; the fetch is issued, its response is morphed into the
  picker, and the cache still holds the snapshot alone.
\<close>

theorem fetched_fragment_not_cached_counterexample:
  "map_of (htmlCache (run shirt [Connect, RunTask 0, Change 1 []]))
     ''/products/shirt?option_values=2,3'' = None
   \<and> map (\<lambda>r. (req_url r, req_kind r, req_status r))
       (requests (run shirt [Connect, RunTask 0, Change 1 []]))
     = [(''/products/shirt?option_values=2,3'', PrefetchFetch, Pending),
        (''/products/shirt?option_values=2,3'', UserFetch False True, Pending)]
   \<and> effects (run shirt [Connect, RunTask 0, Change 1 [],
                         Settle 1 (Response True ''<main>blue m</main>'')])
     = [VariantSelected ''2'',
        ReplaceState \<lparr>pathname = ''/products/shirt'', variant_param = Some ''21''\<rparr>,
        MorphPicker, VariantUpdate ''{}'' ''2'' ''7'' None]
   \<and> htmlCache (run shirt [Connect, RunTask 0, Change 1 [],
                           Settle 1 (Response True ''<main>blue m</main>'')])
     = [(''/products/shirt?option_values=1,3'', ''<main>red m</main>'')]
   \<and> tasks (run shirt [Connect, RunTask 0, Change 1 [],
                       Settle 1 (Response True ''<main>blue m</main>'')]) = []"
  by code_simp

text \<open>
  C5, amended. When a change is not served from the cache (the key is not cached, or the
  change is no colour change, or the page is no product page), the handler aborts the fetch
  of its abort controller, starts one pending fetch for the built key under a new abort
  controller, and does not throw. When the response arrives next, the cache is what it was
  before the change. If the response carries the payload it is applied in the mode fixed
  when the fetch was issued: if the change loads a connected product (on a product page, a
  connected product URL that differs from the current product URL) and both main elements
  exist, the main element of the page becomes the fetched one; otherwise, if the response
  holds an element of the picker's tag, the controls of the picker become its controls.
\<close>

theorem cache_miss_fetches_and_applies:
  assumes "i < length (elements s)"
    and "snd (updateSelectedOption s i) = None"
    and "built_key s i = Inr url"
    and "\<not> (truthy (map_of (htmlCache s) url) \<and> isOnProductPage s (event_target s i)
            \<and> isColorOption (event_target s i))"
  shows "snd (variantChanged s i) = None
     \<and> requests (fst (variantChanged s i))
         = abort (abortController s) (requests s)
           @ [\<lparr>req_url = url,
               req_kind = UserFetch (loadsNewProduct s (event_target s i))
                            (isColorOption (event_target s i)),
               req_status = Pending\<rparr>]
     \<and> abortController (fst (variantChanged s i)) = Some (length (requests s))
     \<and> htmlCache (fetch_settled (fst (variantChanged s i)) (length (requests s))
                    (Response ok text)) = htmlCache s
     \<and> (truthy (doc_payload (parseFromString s text))
        \<longrightarrow> (if loadsNewProduct s (event_target s i)
             then (\<forall>newMain. page_main s \<noteq> None
                      \<and> doc_main (parseFromString s text) = Some newMain
                    \<longrightarrow> page_main (fetch_settled (fst (variantChanged s i))
                                     (length (requests s)) (Response ok text)) = Some newMain
                        \<and> MorphMain newMain
                            \<in> set (effects (fetch_settled (fst (variantChanged s i))
                                             (length (requests s)) (Response ok text))))
             else (\<forall>src. doc_picker (parseFromString s text) (toLowerCase (tagName s)) = Some src
                    \<longrightarrow> elements (fetch_settled (fst (variantChanged s i))
                                    (length (requests s)) (Response ok text)) = src_elements src
                        \<and> MorphPicker
                            \<in> set (effects (fetch_settled (fst (variantChanged s i))
                                             (length (requests s)) (Response ok text))))))"
proof -
  let ?t = "event_target s i"
  let ?d = "parseFromString s text"
  let ?n = "length (requests s)"
  define l where "l = loadsNewProduct s ?t"
  define c where "c = isColorOption ?t"
  define r where "r = \<lparr>req_url = url, req_kind = UserFetch l c, req_status = Pending\<rparr>"
  obtain s3 where s3: "requests s3 = requests s" "abortController s3 = abortController s"
      "page_main s3 = page_main s" "tagName s3 = tagName s"
      "parseFromString s3 = parseFromString s" "htmlCache s3 = htmlCache s"
    and v: "variantChanged s i
            = (fetch_and_update_address s3 ?t url (isOnProductPage s ?t) l c, None)"
    using variantChanged_fetch [OF assms] unfolding l_def c_def by blast
  define s' where "s' = fst (variantChanged s i)"
  have s': "requests s' = abort (abortController s) (requests s) @ [r]"
    "abortController s' = Some ?n" "page_main s' = page_main s" "tagName s' = tagName s"
    "parseFromString s' = parseFromString s" "htmlCache s' = htmlCache s"
    using s3
    by (simp_all add: s'_def v fetch_and_update_address_def fetchUpdatedSection_def Let_def
          replaceState_if_changed_def r_def)
  define s1 where "s1 = s'\<lparr>requests := (requests s')[?n := r\<lparr>req_status := Settled\<rparr>],
                          pendingRequestUrl := None\<rparr>"
  have s1: "page_main s1 = page_main s" "tagName s1 = tagName s"
    "parseFromString s1 = parseFromString s" "htmlCache s1 = htmlCache s"
    using s' by (simp_all add: s1_def)
  have settle: "fetch_settled s' ?n (Response ok text)
                = (if truthy (doc_payload ?d) then fst (apply_html s1 ?d l c) else s1)"
    using s'(1,5)
    by (simp add: fetch_settled_def Let_def nth_append r_def fetchUpdatedSection_catch_def
          fetchUpdatedSection_then_def s1_def)
  have cache: "htmlCache (fetch_settled s' ?n (Response ok text)) = htmlCache s"
    using s1(4) by (simp add: settle cache_apply_html)
  have main: "page_main (fetch_settled s' ?n (Response ok text)) = Some newMain
              \<and> MorphMain newMain \<in> set (effects (fetch_settled s' ?n (Response ok text)))"
    if "truthy (doc_payload ?d)" "l" "page_main s \<noteq> None" "doc_main ?d = Some newMain"
    for newMain
    using that apply_html_main_ok [of s1 ?d newMain c] s1 by (simp add: settle)
  have picker: "elements (fetch_settled s' ?n (Response ok text)) = src_elements src
                \<and> MorphPicker \<in> set (effects (fetch_settled s' ?n (Response ok text)))"
    if "truthy (doc_payload ?d)" "\<not> l" "doc_picker ?d (toLowerCase (tagName s)) = Some src"
    for src
    using that apply_html_picker_ok [of ?d s1 src c] s1 by (simp add: settle)
  have "snd (variantChanged s i) = None" by (simp add: v)
  then show ?thesis
    using s'(1,2) cache main picker unfolding s'_def l_def c_def r_def by simp
qed

text \<open>
  The shirt with an empty cache; the user picks blue and the page of the blue shirt
  arrives.
\<close>

theorem cache_miss_fetches_and_applies_witness:
  "1 < length (elements (user_input shirt 1 []))
   \<and> snd (updateSelectedOption (user_input shirt 1 []) 1) = None
   \<and> built_key (user_input shirt 1 []) 1 = Inr ''/products/shirt?option_values=2,3''
   \<and> map_of (htmlCache (user_input shirt 1 [])) ''/products/shirt?option_values=2,3'' = None
   \<and> requests (fst (variantChanged (user_input shirt 1 []) 1))
       = [\<lparr>req_url = ''/products/shirt?option_values=2,3'', req_kind = UserFetch False True,
           req_status = Pending\<rparr>]
   \<and> abortController (fst (variantChanged (user_input shirt 1 []) 1)) = Some 0
   \<and> htmlCache (fetch_settled (fst (variantChanged (user_input shirt 1 []) 1)) 0
                  (Response True ''<main>blue m</main>'')) = []
   \<and> elements (fetch_settled (fst (variantChanged (user_input shirt 1 []) 1)) 0
                 (Response True ''<main>blue m</main>'')) = shirt_elements True False
   \<and> MorphPicker \<in> set (effects (fetch_settled (fst (variantChanged (user_input shirt 1 []) 1)) 0
                                    (Response True ''<main>blue m</main>'')))"
proof -
  let ?s = "user_input shirt 1 []"
  let ?k = "''/products/shirt?option_values=2,3''"
  let ?f = "''<main>blue m</main>''"
  have h1: "1 < length (elements ?s)" by code_simp
  have h2: "snd (updateSelectedOption ?s 1) = None" by code_simp
  have h3: "built_key ?s 1 = Inr ?k" by code_simp
  have m: "map_of (htmlCache ?s) ?k = None" by code_simp
  then have h4: "\<not> (truthy (map_of (htmlCache ?s) ?k) \<and> isOnProductPage ?s (event_target ?s 1)
                    \<and> isColorOption (event_target ?s 1))"
    by (simp add: truthy_def)
  have e1: "requests ?s = []" "abortController ?s = None" "htmlCache ?s = []" by code_simp+
  have e2: "loadsNewProduct ?s (event_target ?s 1) = False"
    "isColorOption (event_target ?s 1) = True" by code_simp+
  have e3: "truthy (doc_payload (parseFromString ?s ?f))" by code_simp
  have e4: "doc_picker (parseFromString ?s ?f) (toLowerCase (tagName ?s))
            = Some \<lparr>src_productId = Some ''7'', src_productUrl = Some ''/products/shirt'',
                    src_elements = shirt_elements True False\<rparr>" by code_simp
  show ?thesis
    using cache_miss_fetches_and_applies [OF h1 h2 h3 h4, of True ?f] h1 h2 h3 m e3 e4
    unfolding e1 e2 by (simp add: abort_def)
qed

subsection \<open>After a size change\<close>

text \<open>
  C6, as the spec states it, does not hold: the callback scheduled after a change that is
  no colour change runs the snapshot too. The user picks L; once the response has been
  applied one callback is scheduled; when it runs, the cache, which held the page of red in
  M, also holds an entry under the key of red in L.
\<close>

theorem size_change_repeats_snapshot_counterexample:
  "tasks (run shirt [Connect, RunTask 0, Change 3 [],
                     Settle 1 (Response True ''<main>red l</main>'')])
     = [IdleCallback 50 [CacheCurrentPage, PrefetchAvailableColorVariants]]
   \<and> map fst (htmlCache (run shirt [Connect, RunTask 0, Change 3 [],
                                    Settle 1 (Response True ''<main>red l</main>'')]))
     = [''/products/shirt?option_values=1,3'']
   \<and> currentPageUrl (run shirt [Connect, RunTask 0, Change 3 [],
                                Settle 1 (Response True ''<main>red l</main>'')])
     = ''/products/shirt?option_values=1,4''
   \<and> map fst (htmlCache (run shirt [Connect, RunTask 0, Change 3 [],
                                    Settle 1 (Response True ''<main>red l</main>''), RunTask 0]))
     = [''/products/shirt?option_values=1,3'', ''/products/shirt?option_values=1,4'']"
  by code_simp

text \<open>
  C6, amended. After a change that is no colour change has been applied without a throw,
  one callback is scheduled (an idle callback with a timeout of 50 ms, or a timer of 50 ms
  where idle callbacks do not exist). When it runs it repeats both phases of the attach
  step: it first snapshots the current page, then prefetches the colour candidates. So once
  it has run, the cache maps the key of the current selection to the main element of the
  page, provided an option is checked and the page has a main element.
\<close>

theorem after_size_change_snapshot_then_prefetch:
  "(snd (apply_html s d m False) = None
    \<longrightarrow> tasks (fst (apply_html s d m False))
          = tasks s @ [if has_requestIdleCallback s
                       then IdleCallback 50 [CacheCurrentPage, PrefetchAvailableColorVariants]
                       else Timeout 50 [CacheCurrentPage, PrefetchAvailableColorVariants]])
   \<and> run_task (prefetchAfterSizeChange s) (length (tasks s))
       = prefetchAvailableColorVariants (cacheCurrentPage s)
   \<and> (checkedOptionValueIds s \<noteq> [] \<and> page_main s = Some html
      \<longrightarrow> map_of (htmlCache (fst (run_task (prefetchAfterSizeChange s) (length (tasks s)))))
            (currentPageUrl s) = Some html)"
proof -
  have "map_of (htmlCache (fst (prefetchAvailableColorVariants (cacheCurrentPage s))))
          (currentPageUrl s) = Some html"
    if "checkedOptionValueIds s \<noteq> []" "page_main s = Some html"
    using that
    by (simp add: cache_prefetchAvailableColorVariants cacheCurrentPage_def cache_put_def
          update_conv')
  then show ?thesis by (simp add: apply_html_tasks run_scheduled_task)
qed

text \<open>
  The shirt, with the page of the red shirt in L applied to it.
\<close>

theorem after_size_change_snapshot_then_prefetch_witness:
  "snd (apply_html shirt (shirt_parse ''<main>red l</main>'') False False) = None
   \<and> tasks (fst (apply_html shirt (shirt_parse ''<main>red l</main>'') False False))
       = [IdleCallback 50 [CacheCurrentPage, PrefetchAvailableColorVariants]]
   \<and> checkedOptionValueIds shirt \<noteq> [] \<and> page_main shirt = Some ''<main>red m</main>''
   \<and> map_of (htmlCache (fst (run_task (prefetchAfterSizeChange shirt) 0)))
        ''/products/shirt?option_values=1,3'' = Some ''<main>red m</main>''"
proof -
  let ?d = "shirt_parse ''<main>red l</main>''"
  have h1: "snd (apply_html shirt ?d False False) = None" by code_simp
  have h2: "checkedOptionValueIds shirt \<noteq> [] \<and> page_main shirt = Some ''<main>red m</main>''"
    by code_simp
  have e: "tasks shirt = []" "has_requestIdleCallback shirt"
    "currentPageUrl shirt = ''/products/shirt?option_values=1,3''" by code_simp+
  note t = after_size_change_snapshot_then_prefetch [of shirt ?d False "''<main>red m</main>''"]
  have a: "tasks (fst (apply_html shirt ?d False False))
           = [IdleCallback 50 [CacheCurrentPage, PrefetchAvailableColorVariants]]"
    using conjunct1 [OF t] h1 e by simp
  have b: "map_of (htmlCache (fst (run_task (prefetchAfterSizeChange shirt) 0)))
             ''/products/shirt?option_values=1,3'' = Some ''<main>red m</main>''"
    using conjunct2 [OF conjunct2 [OF t]] h2 unfolding e(1,3) list.size(3) by blast
  show ?thesis using h1 h2 a b by blast
qed

subsection \<open>Structural failures\<close>

text \<open>
  C7, as the spec states it, does not hold. A response without the payload makes the
  callback of the fetch return at once: nothing is thrown and no effect is made. A response
  without an element of the picker's tag makes \<^verbatim>\<open>updateVariantPicker\<close> throw inside that
  callback, but the promise chain ends in a \<^verbatim>\<open>catch\<close> that drops the error: after the
  fetch has settled, the page shows the selection event alone.
\<close>

theorem structural_failure_swallowed_counterexample:
  "doc_payload (parseFromString shirt ''<main>sold out</main>'') = None
   \<and> snd (fetchUpdatedSection_then shirt ''<main>sold out</main>'' False False) = None
   \<and> effects (fst (fetchUpdatedSection_then shirt ''<main>sold out</main>'' False False)) = []
   \<and> doc_picker (parseFromString shirt_swatches ''<main>red l</main>'')
        (toLowerCase (tagName shirt_swatches)) = None
   \<and> snd (fetchUpdatedSection_then shirt_swatches ''<main>red l</main>'' False False)
       = Some NoPickerSource
   \<and> effects (run shirt_swatches [Connect, Change 3 [],
                                  Settle 0 (Response True ''<main>red l</main>'')])
       = [VariantSelected ''4'']
   \<and> map el_checked (elements (run shirt_swatches [Connect, Change 3 [],
                                  Settle 0 (Response True ''<main>red l</main>'')]))
       = [True, False, False, True]"
  by code_simp

text \<open>
  C7, amended. A document without the embedded payload is ignored without an error, by the
  callback of the fetch (which only clears the pending request URL) and by the update from
  the cache. A document without an element of the picker's tag makes
  \<^verbatim>\<open>updateVariantPicker\<close> throw \<^verbatim>\<open>No new variant picker source found\<close> before it changes
  anything, and the update from the cache passes the error on to its caller, the change
  handler, which passes it on before it touches the address.
\<close>

theorem structural_failure_handling:
  "(\<not> truthy (doc_payload (parseFromString s text))
    \<longrightarrow> fetchUpdatedSection_then s text m c = (s\<lparr>pendingRequestUrl := None\<rparr>, None))
   \<and> (\<not> truthy (doc_payload d) \<longrightarrow> updateWithCachedHtml s d m c = (s, None))
   \<and> (doc_picker d (toLowerCase (tagName s)) = None
      \<longrightarrow> updateVariantPicker s d = (s, Inl NoPickerSource))
   \<and> (truthy (doc_payload d) \<and> doc_picker d (toLowerCase (tagName s)) = None
      \<longrightarrow> updateWithCachedHtml s d False c = (s, Some NoPickerSource))
   \<and> (truthy (doc_payload (parseFromString s text))
        \<and> doc_picker (parseFromString s text) (toLowerCase (tagName s)) = None
      \<longrightarrow> serve_from_cache s i t text False c = (s, Some NoPickerSource))"
  by (simp add: fetchUpdatedSection_then_def updateWithCachedHtml_def updateVariantPicker_def
        apply_html_def serve_from_cache_def Let_def)

text \<open>
  A page without picker for the shirt, and a page with a \<^verbatim>\<open>variant-picker\<close> for the picker
  of the swatches kind.
\<close>

theorem structural_failure_handling_witness:
  "\<not> truthy (doc_payload (parseFromString shirt ''<main>sold out</main>''))
   \<and> snd (fetchUpdatedSection_then shirt ''<main>sold out</main>'' False True) = None
   \<and> \<not> truthy (doc_payload (shirt_parse ''<main>sold out</main>''))
   \<and> snd (updateWithCachedHtml shirt (shirt_parse ''<main>sold out</main>'') False True) = None
   \<and> truthy (doc_payload (shirt_parse ''<main>blue m</main>''))
   \<and> doc_picker (shirt_parse ''<main>blue m</main>'') (toLowerCase (tagName shirt_swatches)) = None
   \<and> updateVariantPicker shirt_swatches (shirt_parse ''<main>blue m</main>'')
       = (shirt_swatches, Inl NoPickerSource)
   \<and> updateWithCachedHtml shirt_swatches (shirt_parse ''<main>blue m</main>'') False True
       = (shirt_swatches, Some NoPickerSource)
   \<and> truthy (doc_payload (parseFromString shirt_swatches ''<main>blue m</main>''))
   \<and> doc_picker (parseFromString shirt_swatches ''<main>blue m</main>'')
        (toLowerCase (tagName shirt_swatches)) = None
   \<and> serve_from_cache shirt_swatches 1 (elements shirt_swatches ! 1) ''<main>blue m</main>''
        False True = (shirt_swatches, Some NoPickerSource)"
proof -
  have h1: "\<not> truthy (doc_payload (parseFromString shirt ''<main>sold out</main>''))"
    by code_simp
  have h2: "\<not> truthy (doc_payload (shirt_parse ''<main>sold out</main>''))" by code_simp
  have h3: "truthy (doc_payload (shirt_parse ''<main>blue m</main>''))" by code_simp
  have h4: "doc_picker (shirt_parse ''<main>blue m</main>'')
              (toLowerCase (tagName shirt_swatches)) = None" by code_simp
  have h5: "truthy (doc_payload (parseFromString shirt_swatches ''<main>blue m</main>''))"
    by code_simp
  have h6: "doc_picker (parseFromString shirt_swatches ''<main>blue m</main>'')
              (toLowerCase (tagName shirt_swatches)) = None" by code_simp
  show ?thesis
    using structural_failure_handling
            [of shirt "''<main>sold out</main>''" False True
               "shirt_parse ''<main>sold out</main>''"]
          structural_failure_handling
            [of shirt_swatches "''<main>blue m</main>''" False True
               "shirt_parse ''<main>blue m</main>''" 1 "elements shirt_swatches ! 1"]
          h1 h2 h3 h4 h5 h6
    by simp
qed

subsection \<open>Prefetches in flight\<close>

text \<open>
  C8 asks that no two prefetches for one key are in flight together. The picker keeps no
  set of the keys being fetched: \<^verbatim>\<open>#prefetchSingleVariant\<close> only asks whether the key is
  cached yet. On the shirt: the idle callback prefetches blue in M; the user picks L and
  then M again, and each response schedules a callback that prefetches; the last one
  prefetches blue in M a second time while the first is still pending. The same happens
  when the picker is attached, detached and attached again, and both idle callbacks run.
\<close>

theorem duplicate_prefetch_in_flight:
  "map (\<lambda>r. (req_url r, req_kind r, req_status r))
     (requests (run shirt [Connect, RunTask 0, Change 3 [],
                          Settle 1 (Response True ''<main>red l</main>''), RunTask 0,
                          Change 2 [], Settle 3 (Response True ''<main>red m</main>''),
                          RunTask 0]))
     = [(''/products/shirt?option_values=2,3'', PrefetchFetch, Pending),
        (''/products/shirt?option_values=1,4'', UserFetch False False, Settled),
        (''/products/shirt?option_values=2,4'', PrefetchFetch, Pending),
        (''/products/shirt?option_values=1,3'', UserFetch False False, Settled),
        (''/products/shirt?option_values=2,3'', PrefetchFetch, Pending)]
   \<and> map (\<lambda>r. (req_url r, req_kind r, req_status r))
     (requests (run shirt [Connect, Disconnect, Connect, RunTask 0, RunTask 0]))
     = [(''/products/shirt?option_values=2,3'', PrefetchFetch, Pending),
        (''/products/shirt?option_values=2,3'', PrefetchFetch, Pending)]"
  by code_simp

subsection \<open>Detaching\<close>

text \<open>
  C9, as the spec states it, does not hold: the callback scheduled when the picker was
  attached is still scheduled after the picker has been detached, and when it runs it
  writes the snapshot into the cache that was cleared and starts a prefetch.
\<close>

theorem detach_keeps_callbacks_counterexample:
  "tasks (run shirt [Connect, Disconnect])
     = [IdleCallback 100 [CacheCurrentPage, PrefetchAvailableColorVariants]]
   \<and> htmlCache (run shirt [Connect, Disconnect]) = []
   \<and> htmlCache (run shirt [Connect, Disconnect, RunTask 0])
     = [(''/products/shirt?option_values=1,3'', ''<main>red m</main>'')]
   \<and> requests (run shirt [Connect, Disconnect, RunTask 0])
     = [\<lparr>req_url = ''/products/shirt?option_values=2,3'', req_kind = PrefetchFetch,
         req_status = Pending\<rparr>]"
  by code_simp

text \<open>
  C9, amended. Detaching the picker clears the fragment cache and, when the hover
  listeners are attached, removes them; the scheduled callbacks and the network operations
  stay as they are, since the picker keeps no handle on them. A callback scheduled before
  the detach still runs after it: when an option is checked and the page has a main
  element, the cache then holds the snapshot of the current page again, and nothing else.
\<close>

theorem detach_clears_cache_and_listeners:
  "htmlCache (step s Disconnect) = []
   \<and> tasks (step s Disconnect) = tasks s
   \<and> requests (step s Disconnect) = requests s
   \<and> (listenersAttached s \<and> boundHoverHandler s \<and> boundLeaveHandler s
        \<longrightarrow> \<not> listenersAttached (step s Disconnect)
            \<and> \<not> boundHoverHandler (step s Disconnect)
            \<and> \<not> boundLeaveHandler (step s Disconnect))
   \<and> (n < length (tasks s)
        \<and> task_body (tasks s ! n) = [CacheCurrentPage, PrefetchAvailableColorVariants]
        \<and> checkedOptionValueIds s \<noteq> [] \<and> page_main s = Some html
        \<longrightarrow> htmlCache (run s [Disconnect, RunTask n]) = [(currentPageUrl s, html)])"
proof -
  let ?d = "disconnectedCallback s"
  have d: "htmlCache ?d = []" "tasks ?d = tasks s" "requests ?d = requests s"
    "elements ?d = elements s" "page_main ?d = page_main s"
    "dataset_productUrl ?d = dataset_productUrl s"
    by (simp_all add: disconnectedCallback_def Let_def)
  have l: "\<not> listenersAttached ?d \<and> \<not> boundHoverHandler ?d \<and> \<not> boundLeaveHandler ?d"
    if "listenersAttached s \<and> boundHoverHandler s \<and> boundLeaveHandler s"
    using that by (simp add: disconnectedCallback_def Let_def)
  have r: "htmlCache (run s [Disconnect, RunTask n]) = [(currentPageUrl s, html)]"
    if "n < length (tasks s)"
      "task_body (tasks s ! n) = [CacheCurrentPage, PrefetchAvailableColorVariants]"
      "checkedOptionValueIds s \<noteq> []" "page_main s = Some html"
  proof -
    have "htmlCache (fst (run_task ?d n)) = htmlCache (cacheCurrentPage ?d)"
      using that(1,2) d(2) by (simp add: run_snapshot_task)
    also have "\<dots> = cache_put (currentPageUrl s) html []"
      using that(3,4) d
      by (simp add: cacheCurrentPage_def checkedOptionValueIds_def currentPageUrl_def)
    finally show ?thesis
      by (simp add: run_def step_def cache_put_def MAX_CACHE_SIZE_def)
  qed
  show ?thesis using d l r by (simp add: step_def)
qed

text \<open>
  The shirt with a full cache, attached and then detached.
\<close>

theorem detach_clears_cache_and_listeners_witness:
  "listenersAttached (connectedCallback shirt_full)
   \<and> boundHoverHandler (connectedCallback shirt_full)
   \<and> boundLeaveHandler (connectedCallback shirt_full)
   \<and> htmlCache (connectedCallback shirt_full) = full_cache
   \<and> htmlCache (step (connectedCallback shirt_full) Disconnect) = []
   \<and> tasks (step (connectedCallback shirt_full) Disconnect)
       = tasks (connectedCallback shirt_full)
   \<and> \<not> listenersAttached (step (connectedCallback shirt_full) Disconnect)
   \<and> 0 < length (tasks (connectedCallback shirt_full))
   \<and> task_body (tasks (connectedCallback shirt_full) ! 0)
       = [CacheCurrentPage, PrefetchAvailableColorVariants]
   \<and> checkedOptionValueIds (connectedCallback shirt_full) \<noteq> []
   \<and> page_main (connectedCallback shirt_full) = Some ''<main>red m</main>''
   \<and> htmlCache (run (connectedCallback shirt_full) [Disconnect, RunTask 0])
       = [(''/products/shirt?option_values=1,3'', ''<main>red m</main>'')]"
proof -
  let ?s = "connectedCallback shirt_full"
  have h: "listenersAttached ?s \<and> boundHoverHandler ?s \<and> boundLeaveHandler ?s" by code_simp
  have c: "htmlCache ?s = full_cache"
    by (simp add: connectedCallback_def setupVariantHoverListeners_def Let_def shirt_full_def)
  have t: "0 < length (tasks ?s)
           \<and> task_body (tasks ?s ! 0) = [CacheCurrentPage, PrefetchAvailableColorVariants]
           \<and> checkedOptionValueIds ?s \<noteq> [] \<and> page_main ?s = Some ''<main>red m</main>''"
    by code_simp
  have u: "currentPageUrl ?s = ''/products/shirt?option_values=1,3''" by code_simp
  show ?thesis
    using detach_clears_cache_and_listeners [of ?s 0 "''<main>red m</main>''"] h c t
    unfolding u by blast
qed

subsection \<open>A put of a key that is present\<close>

text \<open>
  C10. When the cache holds exactly 50 entries and a put is issued for a key that is among
  them, both places that write the cache first delete the oldest entry and then overwrite:
  the result is the overwrite applied to the cache without its first entry. If the key is
  not the oldest one, the cache shrinks to 49 entries and the oldest key, a fragment that
  has nothing to do with the put, is no longer addressable.
\<close>

theorem redundant_put_evicts_oldest:
  assumes "distinct (map fst (htmlCache s))" and "length (htmlCache s) = 50"
  shows "(checkedOptionValueIds s \<noteq> [] \<and> page_main s = Some html
          \<and> currentPageUrl s \<in> fst ` set (htmlCache s)
        \<longrightarrow> htmlCache (cacheCurrentPage s)
              = AList.update (currentPageUrl s) html (tl (htmlCache s))
            \<and> (currentPageUrl s \<noteq> fst (hd (htmlCache s))
               \<longrightarrow> length (htmlCache (cacheCurrentPage s)) = 49
                   \<and> map_of (htmlCache (cacheCurrentPage s)) (fst (hd (htmlCache s))) = None))
     \<and> (text \<noteq> [] \<and> \<not> blank text \<and> doc_main (parseFromString s text) = Some fragment
          \<and> url \<in> fst ` set (htmlCache s)
        \<longrightarrow> htmlCache (prefetchSingleVariant_resume s url (Response True text))
              = AList.update url fragment (tl (htmlCache s))
            \<and> (url \<noteq> fst (hd (htmlCache s))
               \<longrightarrow> length (htmlCache (prefetchSingleVariant_resume s url (Response True text))) = 49
                   \<and> map_of (htmlCache (prefetchSingleVariant_resume s url (Response True text)))
                        (fst (hd (htmlCache s))) = None))"
proof -
  obtain k0 v0 c' where c: "htmlCache s = (k0, v0) # c'"
    using assms(2) by (cases "htmlCache s") auto
  have put: "cache_put k v (htmlCache s) = AList.update k v c'" for k v
    using assms c by (simp add: cache_put_full MAX_CACHE_SIZE_def)
  have shrink: "length (AList.update k v c') = 49
                \<and> map_of (AList.update k v c') k0 = None"
    if "k \<in> fst ` set (htmlCache s)" "k \<noteq> k0" for k v
  proof -
    have "k \<in> fst ` set c'" using that c by auto
    then have "length (AList.update k v c') = length c'" by (rule length_update_present)
    moreover have "map_of c' k0 = None" using assms(1) c by (simp add: map_of_eq_None_iff)
    ultimately show ?thesis using that assms(2) c by (simp add: update_conv')
  qed
  have snapshot:
    "htmlCache (cacheCurrentPage s) = AList.update (currentPageUrl s) html (tl (htmlCache s))
     \<and> (currentPageUrl s \<noteq> fst (hd (htmlCache s))
        \<longrightarrow> length (htmlCache (cacheCurrentPage s)) = 49
            \<and> map_of (htmlCache (cacheCurrentPage s)) (fst (hd (htmlCache s))) = None)"
    if a: "checkedOptionValueIds s \<noteq> []" "page_main s = Some html"
          "currentPageUrl s \<in> fst ` set (htmlCache s)"
  proof -
    have "htmlCache (cacheCurrentPage s) = AList.update (currentPageUrl s) html c'"
      using a put by (simp add: cacheCurrentPage_def)
    then show ?thesis using shrink [OF a(3)] c by simp
  qed
  have prefetch:
    "htmlCache (prefetchSingleVariant_resume s url (Response True text))
       = AList.update url fragment (tl (htmlCache s))
     \<and> (url \<noteq> fst (hd (htmlCache s))
        \<longrightarrow> length (htmlCache (prefetchSingleVariant_resume s url (Response True text))) = 49
            \<and> map_of (htmlCache (prefetchSingleVariant_resume s url (Response True text)))
                 (fst (hd (htmlCache s))) = None)"
    if a: "text \<noteq> []" "\<not> blank text" "doc_main (parseFromString s text) = Some fragment"
          "url \<in> fst ` set (htmlCache s)"
  proof -
    have "htmlCache (prefetchSingleVariant_resume s url (Response True text))
          = AList.update url fragment c'"
      using a put by (simp add: prefetchSingleVariant_resume_def)
    then show ?thesis using shrink [OF a(4)] c by simp
  qed
  show ?thesis using snapshot prefetch by (intro conjI impI; elim conjE) simp_all
qed

text \<open>
  The red shirt in M is snapshot again while its page is the last of 50 entries.
\<close>

theorem redundant_put_evicts_oldest_witness:
  "distinct (map fst (htmlCache shirt_full)) \<and> length (htmlCache shirt_full) = 50
   \<and> currentPageUrl shirt_full = ''/products/shirt?option_values=1,3''
   \<and> map_of (htmlCache shirt_full) ''/products/shirt?option_values=1,3'' = Some ''<main>red m</main>''
   \<and> fst (hd (htmlCache shirt_full)) = ''/products/shirt?option_values=5''
   \<and> length (htmlCache (cacheCurrentPage shirt_full)) = 49
   \<and> map_of (htmlCache (cacheCurrentPage shirt_full)) ''/products/shirt?option_values=5'' = None
   \<and> length (htmlCache (prefetchSingleVariant_resume shirt_full
         ''/products/shirt?option_values=1,3'' (Response True ''<main>red m</main>''))) = 49"
proof -
  let ?s = shirt_full
  have c: "htmlCache ?s = full_cache" by (simp add: shirt_full_def)
  have d: "distinct (map fst (htmlCache ?s))" unfolding c by code_simp
  have l: "length (htmlCache ?s) = 50" unfolding c by code_simp
  have u: "currentPageUrl ?s = ''/products/shirt?option_values=1,3''" by code_simp
  have m: "map_of (htmlCache ?s) ''/products/shirt?option_values=1,3'' = Some ''<main>red m</main>''"
    unfolding c by code_simp
  have h: "fst (hd (htmlCache ?s)) = ''/products/shirt?option_values=5''"
    unfolding c by code_simp
  have p1: "checkedOptionValueIds ?s \<noteq> [] \<and> page_main ?s = Some ''<main>red m</main>''
            \<and> currentPageUrl ?s \<in> fst ` set (htmlCache ?s)
            \<and> currentPageUrl ?s \<noteq> fst (hd (htmlCache ?s))"
    by code_simp
  have p2: "''<main>red m</main>'' \<noteq> [] \<and> \<not> blank ''<main>red m</main>''
            \<and> doc_main (parseFromString ?s ''<main>red m</main>'') = Some ''<main>red m</main>''
            \<and> ''/products/shirt?option_values=1,3'' \<in> fst ` set (htmlCache ?s)
            \<and> ''/products/shirt?option_values=1,3'' \<noteq> fst (hd (htmlCache ?s))"
    by code_simp
  show ?thesis
    using redundant_put_evicts_oldest [OF d l, of "''<main>red m</main>''" "''<main>red m</main>''"
            "''<main>red m</main>''" "''/products/shirt?option_values=1,3''"] d l u m h p1 p2
    by metis
qed

end
